theory Spec2Isabelle
  imports Complex_Main
begin

section \<open>Numbers\<close>

text \<open>
  The TypeScript sources compute with \<^verbatim>\<open>number\<close>. Here a number that is finite is a
  \<^typ>\<open>real\<close>, and counts and loop bounds are whole numbers, modelled as
  \<^typ>\<open>int\<close>. Where a property depends on \<^verbatim>\<open>NaN\<close>, on an infinity or on rounding,
  the model says so: the validator is also modelled on doubles, and the coordinates of
  the generator may be non-finite.
\<close>

section \<open>Placement validator (MapSystem.tsx)\<close>

text \<open>
  \<^verbatim>\<open>interface BuildingData { x: number; z: number; width?: number; depth?: number }\<close>.
  An optional field that is absent is \<^const>\<open>None\<close>.
\<close>

record BuildingData =
  bd_x :: real
  bd_z :: real
  bd_width :: "real option"
  bd_depth :: "real option"

text \<open>
  \<^verbatim>\<open>v || 1\<close> on an optional number: the right operand is taken when the left one is
  falsy, that is when it is \<^verbatim>\<open>undefined\<close> or \<^verbatim>\<open>0\<close>.
\<close>

definition orOne :: "real option \<Rightarrow> real" where
  "orOne v = (case v of None \<Rightarrow> 1 | Some w \<Rightarrow> if w = 0 then 1 else w)"

text \<open>The arrow function handed to \<^verbatim>\<open>otherBuildings.some\<close>.\<close>

definition overlapsWith :: "BuildingData \<Rightarrow> BuildingData \<Rightarrow> bool" where
  "overlapsWith building other =
     (let buildingWidth = orOne (bd_width building);
          buildingDepth = orOne (bd_depth building);
          otherWidth = orOne (bd_width other);
          otherDepth = orOne (bd_depth other);
          xOverlap = (\<bar>bd_x building - bd_x other\<bar> < (buildingWidth + otherWidth) / 2);
          zOverlap = (\<bar>bd_z building - bd_z other\<bar> < (buildingDepth + otherDepth) / 2)
      in xOverlap \<and> zOverlap)"

definition checkBuildingCollision :: "BuildingData \<Rightarrow> BuildingData list \<Rightarrow> bool" where
  "checkBuildingCollision building otherBuildings =
     list_ex (overlapsWith building) otherBuildings"

text \<open>\<^verbatim>\<open>buildings.slice(0, index).concat(buildings.slice(index + 1))\<close>\<close>

definition othersAt :: "'a list \<Rightarrow> nat \<Rightarrow> 'a list" where
  "othersAt buildings index = take index buildings @ drop (index + 1) buildings"

text \<open>
  \<^verbatim>\<open>buildings.filter((building, index) => checkBuildingCollision(building, ...))\<close>:
  the filter sees every element together with its index and keeps the elements.
\<close>

definition collidingBuildings :: "BuildingData list \<Rightarrow> BuildingData list" where
  "collidingBuildings buildings =
     map fst (filter (\<lambda>(building, index).
                 checkBuildingCollision building (othersAt buildings index))
              (zip buildings [0..<length buildings]))"


subsection \<open>The validator on doubles\<close>

text \<open>
  The validator above computes on real numbers. A \<^verbatim>\<open>number\<close> of the source is an
  IEEE double: it may be \<^verbatim>\<open>NaN\<close> or an infinity, and sums, differences and quotients
  are rounded. The validator is therefore modelled a second time on the following
  numbers. The two zeros are not told apart (both are falsy, and no operation of the
  validator distinguishes them).
\<close>

datatype number = Num real | PosInf | NegInf | NaN

fun num_neg :: "number \<Rightarrow> number" where
  "num_neg (Num a) = Num (- a)"
| "num_neg PosInf = NegInf"
| "num_neg NegInf = PosInf"
| "num_neg NaN = NaN"

text \<open>
  Rounding is a parameter \<open>rm\<close> of every operation: \<open>rm v\<close> is the double for the
  magnitude \<open>v > 0\<close>, a finite one or \<open>PosInf\<close> on overflow. Zero is a double, and a
  double is a sign and a magnitude, so a negative real is rounded through its magnitude.
  What is proved for every \<open>rm\<close> holds for the rounding of the machine; \<open>exact\<close>
  is the rounding that leaves every real as it is.
\<close>

definition roundTo :: "(real \<Rightarrow> number) \<Rightarrow> real \<Rightarrow> number" where
  "roundTo rm v = (if v = 0 then Num 0 else if v < 0 then num_neg (rm (- v)) else rm v)"

definition exact :: "real \<Rightarrow> number" where
  "exact v = Num v"

text \<open>\<^verbatim>\<open>a - b\<close>, \<^verbatim>\<open>a + b\<close>, \<^verbatim>\<open>a / 2\<close>, \<^verbatim>\<open>Math.abs(a)\<close> and \<^verbatim>\<open>a < b\<close> on doubles.\<close>

fun num_sub :: "(real \<Rightarrow> number) \<Rightarrow> number \<Rightarrow> number \<Rightarrow> number" where
  "num_sub rm (Num a) (Num b) = roundTo rm (a - b)"
| "num_sub rm NaN b = NaN"
| "num_sub rm a NaN = NaN"
| "num_sub rm PosInf PosInf = NaN"
| "num_sub rm NegInf NegInf = NaN"
| "num_sub rm PosInf b = PosInf"
| "num_sub rm NegInf b = NegInf"
| "num_sub rm (Num a) PosInf = NegInf"
| "num_sub rm (Num a) NegInf = PosInf"

fun num_add :: "(real \<Rightarrow> number) \<Rightarrow> number \<Rightarrow> number \<Rightarrow> number" where
  "num_add rm (Num a) (Num b) = roundTo rm (a + b)"
| "num_add rm NaN b = NaN"
| "num_add rm a NaN = NaN"
| "num_add rm PosInf NegInf = NaN"
| "num_add rm NegInf PosInf = NaN"
| "num_add rm PosInf b = PosInf"
| "num_add rm NegInf b = NegInf"
| "num_add rm (Num a) PosInf = PosInf"
| "num_add rm (Num a) NegInf = NegInf"

fun num_half :: "(real \<Rightarrow> number) \<Rightarrow> number \<Rightarrow> number" where
  "num_half rm (Num a) = roundTo rm (a / 2)"
| "num_half rm PosInf = PosInf"
| "num_half rm NegInf = NegInf"
| "num_half rm NaN = NaN"

fun num_abs :: "number \<Rightarrow> number" where
  "num_abs (Num a) = Num \<bar>a\<bar>"
| "num_abs PosInf = PosInf"
| "num_abs NegInf = PosInf"
| "num_abs NaN = NaN"

fun num_lt :: "number \<Rightarrow> number \<Rightarrow> bool" where
  "num_lt (Num a) (Num b) = (a < b)"
| "num_lt NaN b = False"
| "num_lt a NaN = False"
| "num_lt a NegInf = False"
| "num_lt PosInf b = False"
| "num_lt NegInf b = True"
| "num_lt (Num a) PosInf = True"

record BuildingData64 =
  x64 :: number
  z64 :: number
  width64 :: "number option"
  depth64 :: "number option"

text \<open>
  \<^verbatim>\<open>v || 1\<close>: the falsy values of an optional number are \<^verbatim>\<open>undefined\<close>, \<^verbatim>\<open>NaN\<close>
  and zero.
\<close>

fun orOne64 :: "number option \<Rightarrow> number" where
  "orOne64 None = Num 1"
| "orOne64 (Some NaN) = Num 1"
| "orOne64 (Some (Num w)) = (if w = 0 then Num 1 else Num w)"
| "orOne64 (Some PosInf) = PosInf"
| "orOne64 (Some NegInf) = NegInf"

definition overlapsWith64 :: "(real \<Rightarrow> number) \<Rightarrow> BuildingData64 \<Rightarrow> BuildingData64 \<Rightarrow> bool" where
  "overlapsWith64 rm building other =
     (let buildingWidth = orOne64 (width64 building);
          buildingDepth = orOne64 (depth64 building);
          otherWidth = orOne64 (width64 other);
          otherDepth = orOne64 (depth64 other);
          xOverlap = num_lt (num_abs (num_sub rm (x64 building) (x64 other)))
                            (num_half rm (num_add rm buildingWidth otherWidth));
          zOverlap = num_lt (num_abs (num_sub rm (z64 building) (z64 other)))
                            (num_half rm (num_add rm buildingDepth otherDepth))
      in xOverlap \<and> zOverlap)"

definition checkBuildingCollision64 ::
    "(real \<Rightarrow> number) \<Rightarrow> BuildingData64 \<Rightarrow> BuildingData64 list \<Rightarrow> bool" where
  "checkBuildingCollision64 rm building otherBuildings =
     list_ex (overlapsWith64 rm building) otherBuildings"

definition collidingBuildings64 ::
    "(real \<Rightarrow> number) \<Rightarrow> BuildingData64 list \<Rightarrow> BuildingData64 list" where
  "collidingBuildings64 rm buildings =
     map fst (filter (\<lambda>(building, index).
                 checkBuildingCollision64 rm building (othersAt buildings index))
              (zip buildings [0..<length buildings]))"

text \<open>A placement of finite real coordinates and sizes, as a placement of doubles.\<close>

definition toDouble :: "BuildingData \<Rightarrow> BuildingData64" where
  "toDouble b =
     \<lparr>x64 = Num (bd_x b), z64 = Num (bd_z b),
      width64 = map_option Num (bd_width b), depth64 = map_option Num (bd_depth b)\<rparr>"

text \<open>
  The collision test as the specification words it: the stated inequalities in exact
  arithmetic, width and depth being the supplied values, and 1 only when the field is
  absent.
\<close>

fun spec_dim64 :: "number option \<Rightarrow> number" where
  "spec_dim64 None = Num 1"
| "spec_dim64 (Some v) = v"

definition spec_overlap64 :: "BuildingData64 \<Rightarrow> BuildingData64 \<Rightarrow> bool" where
  "spec_overlap64 P O' =
     (num_lt (num_abs (num_sub exact (x64 P) (x64 O')))
             (num_half exact (num_add exact (spec_dim64 (width64 P)) (spec_dim64 (width64 O'))))
      \<and>
      num_lt (num_abs (num_sub exact (z64 P) (z64 O')))
             (num_half exact (num_add exact (spec_dim64 (depth64 P)) (spec_dim64 (depth64 O')))))"

text \<open>
  The collision test of the amended claim: the distance and the half sum are the doubles
  that the code computes, and the effective width or depth is the supplied value unless
  that is absent, zero or \<^verbatim>\<open>NaN\<close>, in which case it is 1.
\<close>

fun amended_dim64 :: "number option \<Rightarrow> number" where
  "amended_dim64 None = Num 1"
| "amended_dim64 (Some NaN) = Num 1"
| "amended_dim64 (Some (Num w)) = (if w = 0 then Num 1 else Num w)"
| "amended_dim64 (Some v) = v"

definition absDiff64 :: "(real \<Rightarrow> number) \<Rightarrow> number \<Rightarrow> number \<Rightarrow> number" where
  "absDiff64 rm a b = num_abs (num_sub rm a b)"

definition halfSum64 :: "(real \<Rightarrow> number) \<Rightarrow> number \<Rightarrow> number \<Rightarrow> number" where
  "halfSum64 rm a b = num_half rm (num_add rm a b)"

definition amended_overlap64 :: "(real \<Rightarrow> number) \<Rightarrow> BuildingData64 \<Rightarrow> BuildingData64 \<Rightarrow> bool" where
  "amended_overlap64 rm P O' =
     (num_lt (absDiff64 rm (x64 P) (x64 O'))
             (halfSum64 rm (amended_dim64 (width64 P)) (amended_dim64 (width64 O')))
      \<and>
      num_lt (absDiff64 rm (z64 P) (z64 O'))
             (halfSum64 rm (amended_dim64 (depth64 P)) (amended_dim64 (depth64 O'))))"

text \<open>
  A finite number, and a positive double for the rounding \<open>rm\<close>: plus infinity, or a
  positive real that \<open>rm\<close> leaves as it is and whose double \<open>rm\<close> either leaves as it
  is or takes to plus infinity (to double a binary floating-point number changes its
  exponent only, so it is exact unless it overflows).
\<close>

fun isNum :: "number \<Rightarrow> bool" where
  "isNum (Num a) = True"
| "isNum _ = False"

fun positiveDouble :: "(real \<Rightarrow> number) \<Rightarrow> number \<Rightarrow> bool" where
  "positiveDouble rm (Num w) =
     (0 < w \<and> rm w = Num w \<and> (rm (w + w) = Num (w + w) \<or> rm (w + w) = PosInf))"
| "positiveDouble rm PosInf = True"
| "positiveDouble rm _ = False"

section \<open>Geometry generator (BuildingScene)\<close>

subsection \<open>Numbers that may be non-finite\<close>

text \<open>
  A division by zero does not fail in the source: it yields \<^verbatim>\<open>Infinity\<close> or \<^verbatim>\<open>NaN\<close>.
  Coordinates are therefore finite reals or \<open>NonFinite\<close>, which stands for both.
  A sum or product with a non-finite operand is non-finite (\<^verbatim>\<open>0 * Infinity\<close> is
  \<^verbatim>\<open>NaN\<close>); the generator only ever divides by a finite number.
\<close>

datatype jsnum = Finite real | NonFinite

fun jadd :: "jsnum \<Rightarrow> jsnum \<Rightarrow> jsnum" where
  "jadd (Finite a) (Finite b) = Finite (a + b)"
| "jadd _ _ = NonFinite"

fun jmul :: "jsnum \<Rightarrow> jsnum \<Rightarrow> jsnum" where
  "jmul (Finite a) (Finite b) = Finite (a * b)"
| "jmul _ _ = NonFinite"

fun jdiv :: "jsnum \<Rightarrow> real \<Rightarrow> jsnum" where
  "jdiv (Finite a) b = (if b = 0 then NonFinite else Finite (a / b))"
| "jdiv NonFinite b = NonFinite"

fun jneg :: "jsnum \<Rightarrow> jsnum" where
  "jneg (Finite a) = Finite (- a)"
| "jneg NonFinite = NonFinite"

fun isFinite :: "jsnum \<Rightarrow> bool" where
  "isFinite (Finite a) = True"
| "isFinite NonFinite = False"

subsection \<open>Configuration\<close>

record WindowConfig =
  win_width :: real
  win_height :: real
  win_spacing :: real
  count_front :: int
  count_side :: int

record DividerConfig =
  div_enabled :: bool
  div_height :: real
  div_overhang :: real

record FloorConfig =
  fl_windows :: WindowConfig
  fl_divider :: DividerConfig
  fl_decorativeLines :: bool

record TrimConfig =
  trim_height :: real
  trim_overhang :: real

record StageConfig =
  st_width :: real
  st_depth :: real
  st_height :: real

record TowerConfig =
  tower_base :: StageConfig
  tower_main :: StageConfig
  tower_top :: StageConfig
  tower_spire :: StageConfig

record ParapetConfig =
  par_height :: real
  par_thickness :: real
  par_topTrim :: TrimConfig

record RoofConfig =
  roof_width :: real
  roof_depth :: real
  roof_height :: real
  roof_trim :: TrimConfig
  roof_tower :: TowerConfig
  roof_parapet :: ParapetConfig

record ColumnsConfig =
  col_enabled :: bool
  col_count :: int
  col_width :: real
  col_depth :: real

record BaseConfig =
  base_width :: real
  base_depth :: real
  base_height :: real
  base_decorativeLines :: DividerConfig
  base_columns :: ColumnsConfig

record BuildingConfig =
  cfg_width :: real
  cfg_depth :: real
  cfg_floorHeight :: real
  cfg_numFloors :: int
  cfg_floors :: "FloorConfig list"
  cfg_base :: BaseConfig
  cfg_roof :: RoofConfig

text \<open>The configuration constant of the source.\<close>

definition defaultFloor :: FloorConfig where
  "defaultFloor =
     \<lparr>fl_windows = \<lparr>win_width = 1.8, win_height = 2.2, win_spacing = 3.8,
                  count_front = 5, count_side = 3\<rparr>,
      fl_divider = \<lparr>div_enabled = True, div_height = 0.25, div_overhang = 0.3\<rparr>,
      fl_decorativeLines = True\<rparr>"

definition buildingConfig :: BuildingConfig where
  "buildingConfig =
     \<lparr>cfg_width = 25, cfg_depth = 18, cfg_floorHeight = 3.2, cfg_numFloors = 12,
      cfg_floors = replicate 12 defaultFloor,
      cfg_base =
        \<lparr>base_width = 28, base_depth = 21, base_height = 2.2,
         base_decorativeLines =
           \<lparr>div_enabled = True, div_height = 0.18, div_overhang = 0.2\<rparr>,
         base_columns =
           \<lparr>col_enabled = True, col_count = 4, col_width = 0.9, col_depth = 0.9\<rparr>\<rparr>,
      cfg_roof =
        \<lparr>roof_width = 21.25, roof_depth = 15.3, roof_height = 2.5,
         roof_trim = \<lparr>trim_height = 0.3, trim_overhang = 0.25\<rparr>,
         roof_tower =
           \<lparr>tower_base = \<lparr>st_width = 8, st_depth = 8, st_height = 1\<rparr>,
            tower_main = \<lparr>st_width = 6, st_depth = 6, st_height = 4\<rparr>,
            tower_top = \<lparr>st_width = 7, st_depth = 7, st_height = 1.5\<rparr>,
            tower_spire = \<lparr>st_width = 2, st_depth = 2, st_height = 2\<rparr>\<rparr>,
         roof_parapet =
           \<lparr>par_height = 1.2, par_thickness = 0.15,
            par_topTrim = \<lparr>trim_height = 0.3, trim_overhang = 0.15\<rparr>\<rparr>\<rparr>\<rparr>"

subsection \<open>Primitives\<close>

text \<open>
  A \<^verbatim>\<open>THREE.LineSegments\<close> over the edges of a \<^verbatim>\<open>BoxGeometry(w, h, d)\<close> with a
  \<^verbatim>\<open>LineBasicMaterial\<close>: the box dimensions, the position and the colour.
\<close>

record Primitive =
  geo_w :: real
  geo_h :: real
  geo_d :: real
  pos_x :: jsnum
  pos_y :: jsnum
  pos_z :: jsnum
  color :: nat

text \<open>A new object sits at the origin; every object of the source has colour \<^verbatim>\<open>0x000000\<close>.\<close>

definition lineSegments :: "real \<Rightarrow> real \<Rightarrow> real \<Rightarrow> Primitive" where
  "lineSegments w h d =
     \<lparr>geo_w = w, geo_h = h, geo_d = d,
      pos_x = Finite 0, pos_y = Finite 0, pos_z = Finite 0, color = 0\<rparr>"

definition position_set :: "Primitive \<Rightarrow> jsnum \<Rightarrow> jsnum \<Rightarrow> jsnum \<Rightarrow> Primitive" where
  "position_set p x y z = p\<lparr>pos_x := x, pos_y := y, pos_z := z\<rparr>"

text \<open>
  The objects of the scene are told apart by the variable of the source that holds them
  and by the indices of the enclosing loops. The window loop of the side walls reuses the
  names of the front loop; its objects are named \<open>Side...\<close> here.
\<close>

datatype vname =
    BaseLine | MiddleLayerLine | TopTrimLine
  | ColumnBase | Column | ColumnTop
  | Corner
  | FloorLine
  | FrameLine | PaneLine | VerticalDividerLine | HorizontalDividerLine
  | BackFrameLine | BackPaneLine | BackVerticalDividerLine | BackHorizontalDividerLine
  | SideFrameLine | SidePaneLine | SideVerticalDividerLine | SideHorizontalDividerLine
  | RightFrameLine | RightPaneLine | RightVerticalDividerLine | RightHorizontalDividerLine
  | DividerLine | UpperDividerLine | LowerDividerLine
  | AccentLine | BackAccentLine | LeftAccentLine | RightAccentLine
  | RoofLine | RoofTrimLine | TowerBaseLine | TowerLine | TowerTopLine | SpireLine
  | FrontParapetLine | FrontParapetTopLine | BackParapetLine | BackParapetTopLine
  | LeftParapetLine | LeftParapetTopLine | RightParapetLine | RightParapetTopLine

type_synonym SceneObject = "vname \<times> nat list \<times> Primitive"

datatype JsError = TypeError

text \<open>\<^verbatim>\<open>for (let i = 0; i < n; i++) { ... scene.add(...) ... }\<close>\<close>

definition forLoop :: "int \<Rightarrow> (nat \<Rightarrow> 'a list) \<Rightarrow> 'a list" where
  "forLoop n body = concat (map body [0..<nat n])"

text \<open>The same loop with a body that may throw: the first exception ends it.\<close>

fun collect :: "nat list \<Rightarrow> (nat \<Rightarrow> JsError + 'a list) \<Rightarrow> JsError + 'a list" where
  "collect [] body = Inr []"
| "collect (i # is) body =
     (case body i of
        Inl e \<Rightarrow> Inl e
      | Inr xs \<Rightarrow> (case collect is body of Inl e \<Rightarrow> Inl e | Inr ys \<Rightarrow> Inr (xs @ ys)))"

definition forLoopE :: "int \<Rightarrow> (nat \<Rightarrow> JsError + 'a list) \<Rightarrow> JsError + 'a list" where
  "forLoopE n body = collect [0..<nat n] body"

subsection \<open>Base stack, columns, corners\<close>

definition baseStack :: "BaseConfig \<Rightarrow> SceneObject list" where
  "baseStack base =
     (let baseLine = (lineSegments (base_width base) (base_height base) (base_depth base))
                       \<lparr>pos_y := Finite (- base_height base / 2)\<rparr>;
          middleLayerLine = (lineSegments (base_width base - 1) (base_height base * 0.3)
                               (base_depth base - 1))
                       \<lparr>pos_y := Finite 0\<rparr>;
          topTrimLine = (lineSegments (base_width base - 2) (base_height base * 0.2)
                               (base_depth base - 2))
                       \<lparr>pos_y := Finite (base_height base * 0.25)\<rparr>
      in [(BaseLine, [], baseLine), (MiddleLayerLine, [], middleLayerLine),
          (TopTrimLine, [], topTrimLine)])"

text \<open>The reduced count of a side: \<^verbatim>\<open>isXAxis ? count : Math.floor(count * 0.75)\<close>.\<close>

definition sideCount :: "BaseConfig \<Rightarrow> nat \<Rightarrow> int" where
  "sideCount base side =
     (if side mod 2 = 0 then col_count (base_columns base)
      else \<lfloor>real_of_int (col_count (base_columns base)) * 0.75\<rfloor>)"

definition columnsOnSide :: "BaseConfig \<Rightarrow> nat \<Rightarrow> SceneObject list" where
  "columnsOnSide base side =
     (let width = col_width (base_columns base);
          depth = col_depth (base_columns base);
          isXAxis = (side mod 2 = 0);
          isPositive = (side < 2);
          count = sideCount base side;
          totalLength = (if isXAxis then base_width base else base_depth base);
          spacing = jdiv (Finite (totalLength - width)) (real_of_int (count - 1))
      in forLoop count (\<lambda>i.
           let pos = jadd (Finite (- totalLength / 2)) (jmul (Finite (real i)) spacing);
               columnBase = lineSegments (width * 1.2) (base_height base * 0.2) (depth * 1.2);
               column = lineSegments width (base_height base * 0.8) depth;
               columnTop = lineSegments (width * 1.3) (base_height base * 0.3) (depth * 1.3);
               xPos = (if isXAxis then pos
                       else if isPositive then Finite (base_width base / 2)
                       else Finite (- base_width base / 2));
               zPos = (if isXAxis
                       then (if isPositive then Finite (base_depth base / 2)
                             else Finite (- base_depth base / 2))
                       else pos)
           in [(ColumnBase, [side, i],
                  position_set columnBase xPos (Finite (- base_height base * 0.4)) zPos),
               (Column, [side, i],
                  position_set column xPos (Finite (- base_height base * 0.1)) zPos),
               (ColumnTop, [side, i],
                  position_set columnTop xPos (Finite (base_height base * 0.2)) zPos)]))"

definition columns :: "BaseConfig \<Rightarrow> SceneObject list" where
  "columns base =
     (if col_enabled (base_columns base) then forLoop 4 (columnsOnSide base) else [])"

definition corners :: "BaseConfig \<Rightarrow> SceneObject list" where
  "corners base =
     (let cornerSize = col_width (base_columns base) * 1.5
      in forLoop 4 (\<lambda>i.
           let corner = lineSegments cornerSize (base_height base * 0.9) cornerSize;
               xSign = (if i mod 2 = 0 then 1 else - 1);
               zSign = (if i < 2 then 1 else - 1)
           in [(Corner, [i],
                  position_set corner
                    (Finite (xSign * (base_width base / 2 - cornerSize / 2)))
                    (Finite (- base_height base * 0.05))
                    (Finite (zSign * (base_depth base / 2 - cornerSize / 2))))]))"

subsection \<open>Floors: windows and dividers\<close>

text \<open>One pass of the front and back window loop: floor \<open>i\<close>, window \<open>j\<close>.\<close>

definition frontBackWindow :: "BuildingConfig \<Rightarrow> WindowConfig \<Rightarrow> nat \<Rightarrow> nat \<Rightarrow> SceneObject list" where
  "frontBackWindow cfg windows i j =
     (let windowX = - cfg_width cfg / 2 + win_spacing windows
                      + real j * (win_width windows + win_spacing windows);
          windowY = real i * cfg_floorHeight cfg + win_height windows / 2;
          windowZ = cfg_depth cfg / 2;
          frameLine = position_set
            (lineSegments (win_width windows + 0.2) (win_height windows + 0.2) 0.1)
            (Finite windowX) (Finite windowY) (Finite windowZ);
          paneLine = position_set
            (lineSegments (win_width windows) (win_height windows) 0.05)
            (Finite windowX) (Finite windowY) (Finite windowZ);
          verticalDividerLine = position_set
            (lineSegments 0.05 (win_height windows) 0.05)
            (Finite windowX) (Finite windowY) (Finite windowZ);
          horizontalDividerLine = position_set
            (lineSegments (win_width windows) 0.05 0.05)
            (Finite windowX) (Finite windowY) (Finite windowZ);
          backFrameLine = frameLine\<lparr>pos_z := Finite (- cfg_depth cfg / 2)\<rparr>;
          backPaneLine = paneLine\<lparr>pos_z := Finite (- cfg_depth cfg / 2)\<rparr>;
          backVerticalDividerLine =
            verticalDividerLine\<lparr>pos_z := Finite (- cfg_depth cfg / 2)\<rparr>;
          backHorizontalDividerLine =
            horizontalDividerLine\<lparr>pos_z := Finite (- cfg_depth cfg / 2)\<rparr>
      in [(FrameLine, [i, j], frameLine), (PaneLine, [i, j], paneLine),
          (VerticalDividerLine, [i, j], verticalDividerLine),
          (HorizontalDividerLine, [i, j], horizontalDividerLine),
          (BackFrameLine, [i, j], backFrameLine), (BackPaneLine, [i, j], backPaneLine),
          (BackVerticalDividerLine, [i, j], backVerticalDividerLine),
          (BackHorizontalDividerLine, [i, j], backHorizontalDividerLine)])"

text \<open>One pass of the side window loop.\<close>

definition sideWindow :: "BuildingConfig \<Rightarrow> WindowConfig \<Rightarrow> nat \<Rightarrow> nat \<Rightarrow> SceneObject list" where
  "sideWindow cfg windows i j =
     (let windowX = - cfg_width cfg / 2;
          windowY = real i * cfg_floorHeight cfg + win_height windows / 2;
          windowZ = - cfg_depth cfg / 2 + win_spacing windows
                      + real j * (win_width windows + win_spacing windows);
          frameLine = position_set
            (lineSegments 0.1 (win_height windows + 0.2) (win_width windows + 0.2))
            (Finite windowX) (Finite windowY) (Finite windowZ);
          paneLine = position_set
            (lineSegments 0.05 (win_height windows) (win_width windows))
            (Finite windowX) (Finite windowY) (Finite windowZ);
          verticalDividerLine = position_set
            (lineSegments 0.05 (win_height windows) 0.05)
            (Finite windowX) (Finite windowY) (Finite windowZ);
          horizontalDividerLine = position_set
            (lineSegments 0.05 0.05 (win_width windows))
            (Finite windowX) (Finite windowY) (Finite windowZ);
          rightFrameLine = frameLine\<lparr>pos_x := Finite (cfg_width cfg / 2)\<rparr>;
          rightPaneLine = paneLine\<lparr>pos_x := Finite (cfg_width cfg / 2)\<rparr>;
          rightVerticalDividerLine =
            verticalDividerLine\<lparr>pos_x := Finite (cfg_width cfg / 2)\<rparr>;
          rightHorizontalDividerLine =
            horizontalDividerLine\<lparr>pos_x := Finite (cfg_width cfg / 2)\<rparr>
      in [(SideFrameLine, [i, j], frameLine), (SidePaneLine, [i, j], paneLine),
          (SideVerticalDividerLine, [i, j], verticalDividerLine),
          (SideHorizontalDividerLine, [i, j], horizontalDividerLine),
          (RightFrameLine, [i, j], rightFrameLine), (RightPaneLine, [i, j], rightPaneLine),
          (RightVerticalDividerLine, [i, j], rightVerticalDividerLine),
          (RightHorizontalDividerLine, [i, j], rightHorizontalDividerLine)])"

text \<open>The divider of floor \<open>i\<close> with its decorative lines and accents.\<close>

definition floorDivider :: "BuildingConfig \<Rightarrow> DividerConfig \<Rightarrow> nat \<Rightarrow> SceneObject list" where
  "floorDivider cfg divider i =
     (let dividerLine =
            (lineSegments (cfg_width cfg + div_overhang divider * 2) (div_height divider)
               (cfg_depth cfg + div_overhang divider * 2))
            \<lparr>pos_y := Finite ((real i + 1) * cfg_floorHeight cfg)\<rparr>;
          upperDividerLine =
            (lineSegments (cfg_width cfg + div_overhang divider * 1.5)
               (div_height divider * 0.5) (cfg_depth cfg + div_overhang divider * 1.5))
            \<lparr>pos_y := Finite ((real i + 1) * cfg_floorHeight cfg + div_height divider * 1.5)\<rparr>;
          lowerDividerLine =
            (lineSegments (cfg_width cfg + div_overhang divider * 1.5)
               (div_height divider * 0.5) (cfg_depth cfg + div_overhang divider * 1.5))
            \<lparr>pos_y := Finite ((real i + 1) * cfg_floorHeight cfg - div_height divider * 1.5)\<rparr>;
          accentCount = 8;
          accentSpacing = (cfg_width cfg + div_overhang divider) / (real_of_int accentCount - 1);
          sideAccentCount = 6;
          sideAccentSpacing =
            (cfg_depth cfg + div_overhang divider) / (real_of_int sideAccentCount - 1)
      in [(DividerLine, [i], dividerLine), (UpperDividerLine, [i], upperDividerLine),
          (LowerDividerLine, [i], lowerDividerLine)]
         @ forLoop accentCount (\<lambda>j.
             let accentLine = position_set
                   (lineSegments (div_height divider * 0.5) (div_height divider * 4)
                      (div_height divider * 0.5))
                   (Finite (- cfg_width cfg / 2 - div_overhang divider + real j * accentSpacing))
                   (Finite ((real i + 1) * cfg_floorHeight cfg))
                   (Finite (cfg_depth cfg / 2 + div_overhang divider));
                 backAccentLine =
                   accentLine\<lparr>pos_z := Finite (- cfg_depth cfg / 2 - div_overhang divider)\<rparr>
             in [(AccentLine, [i, j], accentLine), (BackAccentLine, [i, j], backAccentLine)])
         @ forLoop sideAccentCount (\<lambda>j.
             let leftAccentLine = position_set
                   (lineSegments (div_height divider * 0.5) (div_height divider * 4)
                      (div_height divider * 0.5))
                   (Finite (- cfg_width cfg / 2 - div_overhang divider))
                   (Finite ((real i + 1) * cfg_floorHeight cfg))
                   (Finite (- cfg_depth cfg / 2 - div_overhang divider
                            + real j * sideAccentSpacing));
                 rightAccentLine =
                   leftAccentLine\<lparr>pos_x := Finite (cfg_width cfg / 2 + div_overhang divider)\<rparr>
             in [(LeftAccentLine, [i, j], leftAccentLine),
                 (RightAccentLine, [i, j], rightAccentLine)]))"

text \<open>The body of the floor loop, once \<^verbatim>\<open>floorConfig\<close> has been read.\<close>

definition floorObjects :: "BuildingConfig \<Rightarrow> FloorConfig \<Rightarrow> nat \<Rightarrow> SceneObject list" where
  "floorObjects cfg floorConfig i =
     (let line = (lineSegments (cfg_width cfg) (cfg_floorHeight cfg) (cfg_depth cfg))
                   \<lparr>pos_y := Finite (real i * cfg_floorHeight cfg)\<rparr>
      in [(FloorLine, [i], line)]
         @ forLoop (count_front (fl_windows floorConfig))
             (frontBackWindow cfg (fl_windows floorConfig) i)
         @ forLoop (count_side (fl_windows floorConfig))
             (sideWindow cfg (fl_windows floorConfig) i)
         @ (if int i < cfg_numFloors cfg - 1 \<and> div_enabled (fl_divider floorConfig)
            then floorDivider cfg (fl_divider floorConfig) i else []))"

text \<open>
  \<^verbatim>\<open>const floorConfig = buildingConfig.floors[i]; const { windows, divider } = floorConfig;\<close>
  Past the end of the array the read gives \<^verbatim>\<open>undefined\<close> and the destructuring
  throws a \<^verbatim>\<open>TypeError\<close>.
\<close>

definition createFloor :: "BuildingConfig \<Rightarrow> nat \<Rightarrow> JsError + SceneObject list" where
  "createFloor cfg i =
     (if i < length (cfg_floors cfg) then Inr (floorObjects cfg (cfg_floors cfg ! i) i)
      else Inl TypeError)"

subsection \<open>Roof\<close>

definition roofBaseY :: "BuildingConfig \<Rightarrow> real" where
  "roofBaseY cfg = real_of_int (cfg_numFloors cfg) * cfg_floorHeight cfg"

definition roofStack :: "BuildingConfig \<Rightarrow> SceneObject list" where
  "roofStack cfg =
     (let roof = cfg_roof cfg;
          tower = roof_tower roof;
          parapet = roof_parapet roof;
          roofBaseY = roofBaseY cfg;
          roofLine = (lineSegments (roof_width roof) (roof_height roof) (roof_depth roof))
            \<lparr>pos_y := Finite (roofBaseY + roof_height roof / 2)\<rparr>;
          roofTrimLine =
            (lineSegments (roof_width roof + trim_overhang (roof_trim roof) * 2)
               (trim_height (roof_trim roof))
               (roof_depth roof + trim_overhang (roof_trim roof) * 2))
            \<lparr>pos_y := Finite (roofBaseY + roof_height roof + trim_height (roof_trim roof) / 2)\<rparr>;
          towerBaseLine =
            (lineSegments (st_width (tower_base tower)) (st_height (tower_base tower))
               (st_depth (tower_base tower)))
            \<lparr>pos_y := Finite (roofBaseY + roof_height roof + st_height (tower_base tower) / 2)\<rparr>;
          towerLine =
            (lineSegments (st_width (tower_main tower)) (st_height (tower_main tower))
               (st_depth (tower_main tower)))
            \<lparr>pos_y := Finite (roofBaseY + roof_height roof + st_height (tower_base tower)
                                + st_height (tower_main tower) / 2)\<rparr>;
          towerTopLine =
            (lineSegments (st_width (tower_top tower)) (st_height (tower_top tower))
               (st_depth (tower_top tower)))
            \<lparr>pos_y := Finite (roofBaseY + roof_height roof + st_height (tower_base tower)
                                + st_height (tower_main tower)
                                + st_height (tower_top tower) / 2)\<rparr>;
          spireLine =
            (lineSegments (st_width (tower_spire tower)) (st_height (tower_spire tower))
               (st_depth (tower_spire tower)))
            \<lparr>pos_y := Finite (roofBaseY + roof_height roof + st_height (tower_base tower)
                                + st_height (tower_main tower) + st_height (tower_top tower)
                                + st_height (tower_spire tower) / 2)\<rparr>;
          frontParapetLine =
            (lineSegments (roof_width roof) (par_height parapet) (par_thickness parapet))
            \<lparr>pos_y := Finite (roofBaseY + roof_height roof + par_height parapet / 2),
              pos_z := Finite (roof_depth roof / 2)\<rparr>;
          frontParapetTopLine =
            (lineSegments (roof_width roof + trim_overhang (par_topTrim parapet) * 2)
               (trim_height (par_topTrim parapet))
               (par_thickness parapet + trim_overhang (par_topTrim parapet) * 2))
            \<lparr>pos_y := Finite (roofBaseY + roof_height roof + par_height parapet
                                + trim_height (par_topTrim parapet) / 2),
              pos_z := Finite (roof_depth roof / 2)\<rparr>;
          backParapetLine = frontParapetLine\<lparr>pos_z := Finite (- roof_depth roof / 2)\<rparr>;
          backParapetTopLine = frontParapetTopLine\<lparr>pos_z := Finite (- roof_depth roof / 2)\<rparr>;
          leftParapetLine =
            (lineSegments (par_thickness parapet) (par_height parapet) (roof_depth roof))
            \<lparr>pos_y := Finite (roofBaseY + roof_height roof + par_height parapet / 2),
              pos_x := Finite (roof_width roof / 2)\<rparr>;
          leftParapetTopLine =
            (lineSegments (par_thickness parapet + trim_overhang (par_topTrim parapet) * 2)
               (trim_height (par_topTrim parapet))
               (roof_depth roof + trim_overhang (par_topTrim parapet) * 2))
            \<lparr>pos_y := Finite (roofBaseY + roof_height roof + par_height parapet
                                + trim_height (par_topTrim parapet) / 2),
              pos_x := Finite (roof_width roof / 2)\<rparr>;
          rightParapetLine = leftParapetLine\<lparr>pos_x := Finite (- roof_width roof / 2)\<rparr>;
          rightParapetTopLine = leftParapetTopLine\<lparr>pos_x := Finite (- roof_width roof / 2)\<rparr>
      in [(RoofLine, [], roofLine), (RoofTrimLine, [], roofTrimLine),
          (TowerBaseLine, [], towerBaseLine), (TowerLine, [], towerLine),
          (TowerTopLine, [], towerTopLine), (SpireLine, [], spireLine),
          (FrontParapetLine, [], frontParapetLine),
          (FrontParapetTopLine, [], frontParapetTopLine),
          (BackParapetLine, [], backParapetLine),
          (BackParapetTopLine, [], backParapetTopLine),
          (LeftParapetLine, [], leftParapetLine),
          (LeftParapetTopLine, [], leftParapetTopLine),
          (RightParapetLine, [], rightParapetLine),
          (RightParapetTopLine, [], rightParapetTopLine)])"

subsection \<open>The whole scene\<close>

text \<open>
  The objects added to the scene by the effect of \<^verbatim>\<open>BuildingScene\<close>, in the order of
  the \<^verbatim>\<open>scene.add\<close> calls (the lights are left out), or the exception that ends it.
\<close>

definition BuildingScene :: "BuildingConfig \<Rightarrow> JsError + SceneObject list" where
  "BuildingScene cfg =
     (case forLoopE (cfg_numFloors cfg) (createFloor cfg) of
        Inl e \<Rightarrow> Inl e
      | Inr floorsAndWindows \<Rightarrow>
          Inr (baseStack (cfg_base cfg) @ columns (cfg_base cfg) @ corners (cfg_base cfg)
               @ floorsAndWindows @ roofStack cfg))"

subsection \<open>Notions used by the properties\<close>

text \<open>The floors of the scene when no read of a floor configuration fails.\<close>

definition allFloors :: "BuildingConfig \<Rightarrow> SceneObject list" where
  "allFloors cfg =
     forLoop (cfg_numFloors cfg) (\<lambda>i. floorObjects cfg (cfg_floors cfg ! i) i)"

text \<open>
  The top and the bottom of a box, the requirement that a list of objects sits below
  \<open>y = 0\<close> with its top at 0, and the requirement that a box rests on another one.
\<close>

definition top_y :: "Primitive \<Rightarrow> jsnum" where
  "top_y p = jadd (pos_y p) (Finite (geo_h p / 2))"

definition bottom_y :: "Primitive \<Rightarrow> jsnum" where
  "bottom_y p = jadd (pos_y p) (Finite (- (geo_h p / 2)))"

fun jle :: "jsnum \<Rightarrow> real \<Rightarrow> bool" where
  "jle (Finite a) b = (a \<le> b)"
| "jle NonFinite b = False"

definition primitives :: "SceneObject list \<Rightarrow> Primitive list" where
  "primitives objs = map (\<lambda>(n, idx, p). p) objs"

definition sits_below_zero :: "SceneObject list \<Rightarrow> bool" where
  "sits_below_zero objs =
     (list_all (\<lambda>p. jle (top_y p) 0) (primitives objs) \<and>
      list_ex (\<lambda>p. top_y p = Finite 0) (primitives objs))"

definition stackedOn :: "Primitive \<Rightarrow> Primitive \<Rightarrow> bool" where
  "stackedOn cur prev =
     (isFinite (pos_y cur) \<and> pos_y cur = jadd (top_y prev) (Finite (geo_h cur / 2)))"

fun consecutive_stacked :: "Primitive list \<Rightarrow> bool" where
  "consecutive_stacked (p # q # ps) = (stackedOn q p \<and> consecutive_stacked (q # ps))"
| "consecutive_stacked _ = True"

definition roofStages :: "BuildingConfig \<Rightarrow> Primitive list" where
  "roofStages cfg = primitives (take 6 (roofStack cfg))"

text \<open>The four parts of a front window assembly and of its clone on the back wall.\<close>

definition frontParts :: "vname list" where
  "frontParts = [FrameLine, PaneLine, VerticalDividerLine, HorizontalDividerLine]"

definition backParts :: "vname list" where
  "backParts = [BackFrameLine, BackPaneLine, BackVerticalDividerLine, BackHorizontalDividerLine]"

text \<open>
  The number of objects of a scene that are held by a given variable in the pass of the
  floor loop for floor \<open>i\<close>.
\<close>

definition countOnFloor :: "vname \<Rightarrow> nat \<Rightarrow> SceneObject list \<Rightarrow> nat" where
  "countOnFloor name i objs =
     length (filter (\<lambda>(n, idx, p). n = name \<and> take 1 idx = [i]) objs)"

text \<open>
  The invariants that the specification asks of a configuration: every dimension is
  positive, there is at least one floor and one floor configuration per floor, and every
  wall has at least one window. The specification puts no condition on the number of
  columns.
\<close>

definition valid_windows :: "WindowConfig \<Rightarrow> bool" where
  "valid_windows w \<longleftrightarrow>
     0 < win_width w \<and> 0 < win_height w \<and> 0 < win_spacing w \<and>
     1 \<le> count_front w \<and> 1 \<le> count_side w"

definition valid_divider :: "DividerConfig \<Rightarrow> bool" where
  "valid_divider d \<longleftrightarrow> 0 < div_height d \<and> 0 < div_overhang d"

definition valid_trim :: "TrimConfig \<Rightarrow> bool" where
  "valid_trim t \<longleftrightarrow> 0 < trim_height t \<and> 0 < trim_overhang t"

definition valid_stage :: "StageConfig \<Rightarrow> bool" where
  "valid_stage s \<longleftrightarrow> 0 < st_width s \<and> 0 < st_depth s \<and> 0 < st_height s"

definition valid_base :: "BaseConfig \<Rightarrow> bool" where
  "valid_base b \<longleftrightarrow>
     0 < base_width b \<and> 0 < base_depth b \<and> 0 < base_height b \<and>
     valid_divider (base_decorativeLines b) \<and>
     0 < col_width (base_columns b) \<and> 0 < col_depth (base_columns b)"

definition valid_roof :: "RoofConfig \<Rightarrow> bool" where
  "valid_roof r \<longleftrightarrow>
     0 < roof_width r \<and> 0 < roof_depth r \<and> 0 < roof_height r \<and>
     valid_trim (roof_trim r) \<and>
     valid_stage (tower_base (roof_tower r)) \<and> valid_stage (tower_main (roof_tower r)) \<and>
     valid_stage (tower_top (roof_tower r)) \<and> valid_stage (tower_spire (roof_tower r)) \<and>
     0 < par_height (roof_parapet r) \<and> 0 < par_thickness (roof_parapet r) \<and>
     valid_trim (par_topTrim (roof_parapet r))"

definition structurally_valid :: "BuildingConfig \<Rightarrow> bool" where
  "structurally_valid cfg \<longleftrightarrow>
     0 < cfg_width cfg \<and> 0 < cfg_depth cfg \<and> 0 < cfg_floorHeight cfg \<and>
     1 \<le> cfg_numFloors cfg \<and> length (cfg_floors cfg) = nat (cfg_numFloors cfg) \<and>
     list_all (\<lambda>fc. valid_windows (fl_windows fc) \<and> valid_divider (fl_divider fc))
       (cfg_floors cfg) \<and>
     valid_base (cfg_base cfg) \<and> valid_roof (cfg_roof cfg)"

text \<open>
  The objects that the source makes with \<^verbatim>\<open>clone()\<close>: for each the variable that
  holds the original, and the coordinate that is overwritten in the clone. To reflect a
  box about the centre plane of an axis is to negate that coordinate. A list of objects
  is mirrored when it holds, for each clone, the reflected box under the name of the
  original and with the same loop indices.
\<close>

datatype axis = AxisX | AxisZ

fun counterpart :: "vname \<Rightarrow> (vname \<times> axis) option" where
  "counterpart BackFrameLine = Some (FrameLine, AxisZ)"
| "counterpart BackPaneLine = Some (PaneLine, AxisZ)"
| "counterpart BackVerticalDividerLine = Some (VerticalDividerLine, AxisZ)"
| "counterpart BackHorizontalDividerLine = Some (HorizontalDividerLine, AxisZ)"
| "counterpart RightFrameLine = Some (SideFrameLine, AxisX)"
| "counterpart RightPaneLine = Some (SidePaneLine, AxisX)"
| "counterpart RightVerticalDividerLine = Some (SideVerticalDividerLine, AxisX)"
| "counterpart RightHorizontalDividerLine = Some (SideHorizontalDividerLine, AxisX)"
| "counterpart BackAccentLine = Some (AccentLine, AxisZ)"
| "counterpart RightAccentLine = Some (LeftAccentLine, AxisX)"
| "counterpart BackParapetLine = Some (FrontParapetLine, AxisZ)"
| "counterpart BackParapetTopLine = Some (FrontParapetTopLine, AxisZ)"
| "counterpart RightParapetLine = Some (LeftParapetLine, AxisX)"
| "counterpart RightParapetTopLine = Some (LeftParapetTopLine, AxisX)"
| "counterpart _ = None"

fun reflect :: "axis \<Rightarrow> Primitive \<Rightarrow> Primitive" where
  "reflect AxisX p = p\<lparr>pos_x := jneg (pos_x p)\<rparr>"
| "reflect AxisZ p = p\<lparr>pos_z := jneg (pos_z p)\<rparr>"

definition mirrored :: "SceneObject list \<Rightarrow> bool" where
  "mirrored objs =
     list_all (\<lambda>(n, idx, q). case counterpart n of
                  None \<Rightarrow> True
                | Some (m, ax) \<Rightarrow> (m, idx, reflect ax q) \<in> set objs) objs"

text \<open>Every coordinate of every object of a list is a finite number.\<close>

definition positionsFinite :: "SceneObject list \<Rightarrow> bool" where
  "positionsFinite objs =
     list_all (\<lambda>p. isFinite (pos_x p) \<and> isFinite (pos_y p) \<and> isFinite (pos_z p))
       (primitives objs)"


section \<open>Validator: helper facts\<close>

lemma checkBuildingCollision_iff:
  "checkBuildingCollision b os \<longleftrightarrow> (\<exists>other \<in> set os. overlapsWith b other)"
  by (simp add: checkBuildingCollision_def list_ex_iff)

lemma overlapsWith_sym: "overlapsWith a b = overlapsWith b a"
  by (simp add: overlapsWith_def Let_def abs_minus_commute add.commute)

lemma set_othersAt:
  assumes "j < length bs" "j \<noteq> i"
  shows "bs ! j \<in> set (othersAt bs i)"
proof (cases "j < i")
  case True
  then have "bs ! j \<in> set (take i bs)"
    using assms(1) by (auto simp: in_set_conv_nth intro!: exI[of _ j])
  then show ?thesis by (simp add: othersAt_def)
next
  case False
  with assms have "i + 1 \<le> j" by simp
  then have "bs ! j = drop (i + 1) bs ! (j - (i + 1))"
    using assms(1) by simp
  moreover have "j - (i + 1) < length (drop (i + 1) bs)"
    using assms(1) \<open>i + 1 \<le> j\<close> by simp
  ultimately have "bs ! j \<in> set (drop (i + 1) bs)"
    by (metis nth_mem)
  then show ?thesis by (simp add: othersAt_def)
qed

lemma upt_without:
  "take i [0..<n] @ drop (i + 1) [0..<n] = filter (\<lambda>k. k \<noteq> i) [0..<n]"
proof (cases "i < n")
  case True
  have "[0..<n] = [0..<i] @ [i..<n]"
    using upt_add_eq_append [of 0 i "n - i"] True by simp
  also have "[i..<n] = i # [i + 1..<n]"
    using True by (simp add: upt_conv_Cons)
  finally have split: "[0..<n] = [0..<i] @ i # [i + 1..<n]" .
  have f1: "filter (\<lambda>k. k \<noteq> i) [0..<i] = [0..<i]" by (rule filter_True) simp
  have f2: "filter (\<lambda>k. k \<noteq> i) [i + 1..<n] = [i + 1..<n]" by (rule filter_True) simp
  have "filter (\<lambda>k. k \<noteq> i) [0..<n] = [0..<i] @ [i + 1..<n]"
    by (subst split) (simp only: filter_append filter.simps f1 f2 simp_thms if_False)
  moreover have "take i [0..<n] = [0..<i]" using True by simp
  moreover have "drop (i + 1) [0..<n] = [i + 1..<n]" by (simp only: drop_upt) simp
  ultimately show ?thesis by simp
next
  case False
  have "filter (\<lambda>k. k \<noteq> i) [0..<n] = [0..<n]" by (rule filter_True) (use False in simp)
  then show ?thesis using False by simp
qed

lemma othersAt_nth:
  "othersAt bs i = map (\<lambda>k. bs ! k) (filter (\<lambda>k. k \<noteq> i) [0..<length bs])"
proof -
  have "othersAt bs i = take i (map (\<lambda>k. bs ! k) [0..<length bs])
                        @ drop (i + 1) (map (\<lambda>k. bs ! k) [0..<length bs])"
    by (simp only: map_nth othersAt_def)
  also have "\<dots> = map (\<lambda>k. bs ! k) (take i [0..<length bs] @ drop (i + 1) [0..<length bs])"
    by (simp only: take_map drop_map map_append)
  finally show ?thesis by (simp only: upt_without)
qed

lemma collidingBuildings_nth:
  "collidingBuildings bs =
     map (\<lambda>i. bs ! i)
       (filter (\<lambda>i. checkBuildingCollision (bs ! i) (othersAt bs i)) [0..<length bs])"
proof -
  have z: "zip bs [0..<length bs] = map (\<lambda>i. (bs ! i, i)) [0..<length bs]"
    by (rule nth_equalityI) simp_all
  show ?thesis
    unfolding collidingBuildings_def z by (simp add: filter_map comp_def)
qed

lemma collidingBuildings_mem:
  assumes "i < length bs" "checkBuildingCollision (bs ! i) (othersAt bs i)"
  shows "bs ! i \<in> set (collidingBuildings bs)"
  using assms by (simp add: collidingBuildings_nth)

lemma collidingBuildings_set:
  "set (collidingBuildings bs) =
     {bs ! i | i. i < length bs \<and> checkBuildingCollision (bs ! i) (othersAt bs i)}"
  by (auto simp: collidingBuildings_nth)

section \<open>Validator: symmetry and defaults\<close>

text \<open>
  C4: the pairwise test is symmetric, and when the placements at two different indices of
  a list overlap, each of the two is tested positively against the rest of the list and
  both are in the reported list.
\<close>

theorem collision_symmetric:
  "(checkBuildingCollision A [B] \<longleftrightarrow> checkBuildingCollision B [A])
   \<and> (i < length bs \<and> j < length bs \<and> i \<noteq> j \<and> bs ! i = A \<and> bs ! j = B
        \<and> overlapsWith A B
       \<longrightarrow> checkBuildingCollision A (othersAt bs i)
           \<and> checkBuildingCollision B (othersAt bs j)
           \<and> A \<in> set (collidingBuildings bs) \<and> B \<in> set (collidingBuildings bs))"
proof -
  have one: "checkBuildingCollision A [B] \<longleftrightarrow> checkBuildingCollision B [A]"
    by (simp add: checkBuildingCollision_def overlapsWith_sym [of A B])
  have two: "checkBuildingCollision A (othersAt bs i)
           \<and> checkBuildingCollision B (othersAt bs j)
           \<and> A \<in> set (collidingBuildings bs) \<and> B \<in> set (collidingBuildings bs)"
    if h: "i < length bs" "j < length bs" "i \<noteq> j" "bs ! i = A" "bs ! j = B" "overlapsWith A B"
  proof -
    have "B \<in> set (othersAt bs i)" using set_othersAt [of j bs i] h by simp
    then have a: "checkBuildingCollision A (othersAt bs i)"
      using h(6) by (auto simp: checkBuildingCollision_iff)
    have "A \<in> set (othersAt bs j)" using set_othersAt [of i bs j] h by auto
    then have b: "checkBuildingCollision B (othersAt bs j)"
      using h(6) overlapsWith_sym [of A B] by (auto simp: checkBuildingCollision_iff)
    from a b show ?thesis
      using collidingBuildings_mem [of i bs] collidingBuildings_mem [of j bs] h by simp
  qed
  from one two show ?thesis by blast
qed

theorem collision_symmetric_witness:
  "checkBuildingCollision \<lparr>bd_x = 10.4, bd_z = 10, bd_width = Some 1, bd_depth = Some 1\<rparr>
       [\<lparr>bd_x = 10, bd_z = 10, bd_width = Some 1, bd_depth = Some 1\<rparr>]
   \<and> \<lparr>bd_x = 10, bd_z = 10, bd_width = Some 1, bd_depth = Some 1\<rparr>
       \<in> set (collidingBuildings
                [\<lparr>bd_x = 10, bd_z = 10, bd_width = Some 1, bd_depth = Some 1\<rparr>,
                 \<lparr>bd_x = 10.4, bd_z = 10, bd_width = Some 1, bd_depth = Some 1\<rparr>])
   \<and> \<lparr>bd_x = 10.4, bd_z = 10, bd_width = Some 1, bd_depth = Some 1\<rparr>
       \<in> set (collidingBuildings
                [\<lparr>bd_x = 10, bd_z = 10, bd_width = Some 1, bd_depth = Some 1\<rparr>,
                 \<lparr>bd_x = 10.4, bd_z = 10, bd_width = Some 1, bd_depth = Some 1\<rparr>])"
proof -
  let ?A = "\<lparr>bd_x = 10, bd_z = 10, bd_width = Some 1, bd_depth = Some (1::real)\<rparr>"
  let ?B = "\<lparr>bd_x = 10.4, bd_z = 10, bd_width = Some 1, bd_depth = Some (1::real)\<rparr>"
  have ov: "overlapsWith ?A ?B" by (simp add: overlapsWith_def orOne_def)
  have ab: "checkBuildingCollision ?A [?B]"
    using ov by (simp add: checkBuildingCollision_def)
  show ?thesis
    using collision_symmetric [of ?A ?B 0 "[?A, ?B]" 1] ov ab by simp
qed

lemma orOne_default [simp]:
  "orOne (case v of None \<Rightarrow> Some 1 | Some w \<Rightarrow> Some w) = orOne v"
  by (simp add: orOne_def split: option.splits)







section \<open>Validator on doubles: helper facts\<close>

lemma num_lt_irrefl: "\<not> num_lt a a"
  by (cases a) simp_all

lemma num_abs_neg [simp]: "num_abs (num_neg a) = num_abs a"
  by (cases a) simp_all

lemma roundTo_exact [simp]: "roundTo exact v = Num v"
  by (simp add: roundTo_def exact_def)

lemma num_abs_sub_commute: "num_abs (num_sub rm a b) = num_abs (num_sub rm b a)"
proof (cases a; cases b)
  fix u v assume "a = Num u" "b = Num v"
  then show ?thesis
    by (cases "u < v"; cases "v < u") (simp_all add: roundTo_def)
qed simp_all

lemma num_add_commute: "num_add rm a b = num_add rm b a"
  by (cases a; cases b) (simp_all add: add.commute)

lemma overlapsWith64_sym: "overlapsWith64 rm a b = overlapsWith64 rm b a"
  by (simp add: overlapsWith64_def Let_def num_abs_sub_commute [of rm _ "x64 b"]
        num_abs_sub_commute [of rm _ "z64 b"]
        num_add_commute [of rm _ "orOne64 (width64 b)"]
        num_add_commute [of rm _ "orOne64 (depth64 b)"])

lemma orOne64_amended: "orOne64 v = amended_dim64 v"
  by (cases v rule: orOne64.cases) simp_all

lemma orOne64_absent: "orOne64 None = orOne64 (Some (Num 1))"
  by simp

lemma overlapsWith64_amended: "overlapsWith64 rm P O' = amended_overlap64 rm P O'"
  by (simp add: overlapsWith64_def amended_overlap64_def absDiff64_def halfSum64_def
        orOne64_amended Let_def)

lemma checkBuildingCollision64_iff:
  "checkBuildingCollision64 rm b os \<longleftrightarrow> (\<exists>other \<in> set os. overlapsWith64 rm b other)"
  by (simp add: checkBuildingCollision64_def list_ex_iff)

lemma collidingBuildings64_nth:
  "collidingBuildings64 rm bs =
     map (\<lambda>i. bs ! i)
       (filter (\<lambda>i. checkBuildingCollision64 rm (bs ! i) (othersAt bs i)) [0..<length bs])"
proof -
  have z: "zip bs [0..<length bs] = map (\<lambda>i. (bs ! i, i)) [0..<length bs]"
    by (rule nth_equalityI) simp_all
  show ?thesis
    unfolding collidingBuildings64_def z by (simp add: filter_map comp_def)
qed

lemma collidingBuildings64_mem:
  assumes "i < length bs" "checkBuildingCollision64 rm (bs ! i) (othersAt bs i)"
  shows "bs ! i \<in> set (collidingBuildings64 rm bs)"
  using assms by (simp add: collidingBuildings64_nth)

lemma collidingBuildings64_pair:
  "collidingBuildings64 rm [P, O'] = (if overlapsWith64 rm P O' then [P, O'] else [])"
  using overlapsWith64_sym [of rm P O']
  by (simp add: collidingBuildings64_def othersAt_def checkBuildingCollision64_def upt_rec)

lemma collidingBuildings64_single: "collidingBuildings64 rm [p] = []"
  by (simp add: collidingBuildings64_def othersAt_def checkBuildingCollision64_def)

text \<open>
  On finite placements and with exact rounding the validator on doubles is the validator
  on real numbers.
\<close>

lemma overlapsWith64_exact:
  "overlapsWith64 exact (toDouble a) (toDouble b) = overlapsWith a b"
proof -
  have d: "orOne64 (map_option Num v) = Num (orOne v)" for v
    by (cases v) (simp_all add: orOne_def)
  show ?thesis
    by (simp add: overlapsWith64_def overlapsWith_def toDouble_def d Let_def)
qed

lemma halfSum64_positive:
  assumes "positiveDouble rm w"
  shows "num_lt (Num 0) (halfSum64 rm w w)"
proof (cases w)
  case (Num v)
  with assms have v: "0 < v" "rm v = Num v"
    and dbl: "rm (v + v) = Num (v + v) \<or> rm (v + v) = PosInf"
    by simp_all
  from dbl show ?thesis
  proof
    assume "rm (v + v) = Num (v + v)"
    then show ?thesis using v Num by (simp add: halfSum64_def roundTo_def)
  next
    assume "rm (v + v) = PosInf"
    then show ?thesis using v Num by (simp add: halfSum64_def roundTo_def)
  qed
qed (use assms in \<open>simp_all add: halfSum64_def\<close>)

lemma overlapsWith64_self:
  assumes "isNum (x64 p)" "isNum (z64 p)"
    and "positiveDouble rm (orOne64 (width64 p))" "positiveDouble rm (orOne64 (depth64 p))"
  shows "overlapsWith64 rm p p"
proof -
  have zero: "num_abs (num_sub rm a a) = Num 0" if "isNum a" for a
    using that by (cases a) (simp_all add: roundTo_def)
  show ?thesis
    using halfSum64_positive [OF assms(3)] halfSum64_positive [OF assms(4)]
    by (simp add: overlapsWith64_def Let_def zero [OF assms(1)] zero [OF assms(2)]
          halfSum64_def)
qed

section \<open>Validator on doubles: the overlap test\<close>

text \<open>
  C1, as the specification states it, fails on a placement whose width is supplied as 0
  or as \<^verbatim>\<open>NaN\<close>: the code replaces such a width or depth by 1, exactly as it does for an
  absent one. Every operation on the numbers of these inputs is exact on doubles.
\<close>

theorem overlap_zero_width_counterexample:
  "checkBuildingCollision64 exact
       \<lparr>x64 = Num 0, z64 = Num 0, width64 = Some (Num 0), depth64 = Some (Num 0)\<rparr>
       [\<lparr>x64 = Num 0.5, z64 = Num 0, width64 = Some (Num 0), depth64 = Some (Num 0)\<rparr>]
   \<and> \<not> spec_overlap64
          \<lparr>x64 = Num 0, z64 = Num 0, width64 = Some (Num 0), depth64 = Some (Num 0)\<rparr>
          \<lparr>x64 = Num 0.5, z64 = Num 0, width64 = Some (Num 0), depth64 = Some (Num 0)\<rparr>
   \<and> checkBuildingCollision64 exact
       \<lparr>x64 = Num 0, z64 = Num 0, width64 = Some NaN, depth64 = Some (Num 1)\<rparr>
       [\<lparr>x64 = Num 0.5, z64 = Num 0, width64 = Some (Num 1), depth64 = Some (Num 1)\<rparr>]
   \<and> \<not> spec_overlap64
          \<lparr>x64 = Num 0, z64 = Num 0, width64 = Some NaN, depth64 = Some (Num 1)\<rparr>
          \<lparr>x64 = Num 0.5, z64 = Num 0, width64 = Some (Num 1), depth64 = Some (Num 1)\<rparr>"
  by (simp add: checkBuildingCollision64_def overlapsWith64_def spec_overlap64_def)

text \<open>
  C1 (amended): a placement is reported against a list exactly when it overlaps one of its
  elements, and of two placements both are reported or none. Two placements overlap when,
  on x and on z, the distance of the centres is strictly below half the sum of the
  effective widths (on z: depths), distance and half sum being the doubles that the code
  computes; the effective value is the supplied one unless that is absent, zero or
  \<^verbatim>\<open>NaN\<close>, and 1 then. When the computed distance on x equals the computed half sum of the
  widths (touching edges) the two are not reported. When it is strictly smaller the two
  are reported, given equal finite z and a positive computed half sum of the depths.
\<close>

theorem collision_test_overlap:
  "(checkBuildingCollision64 rm P os \<longleftrightarrow> (\<exists>O' \<in> set os. amended_overlap64 rm P O'))
   \<and> collidingBuildings64 rm [P, O'] = (if amended_overlap64 rm P O' then [P, O'] else [])
   \<and> (absDiff64 rm (x64 P) (x64 O')
         = halfSum64 rm (amended_dim64 (width64 P)) (amended_dim64 (width64 O'))
       \<longrightarrow> \<not> checkBuildingCollision64 rm P [O'] \<and> collidingBuildings64 rm [P, O'] = [])
   \<and> (z64 P = z64 O' \<and> isNum (z64 P)
        \<and> num_lt (Num 0) (halfSum64 rm (amended_dim64 (depth64 P)) (amended_dim64 (depth64 O')))
        \<and> num_lt (absDiff64 rm (x64 P) (x64 O'))
                 (halfSum64 rm (amended_dim64 (width64 P)) (amended_dim64 (width64 O')))
       \<longrightarrow> checkBuildingCollision64 rm P [O'] \<and> collidingBuildings64 rm [P, O'] = [P, O'])"
proof (intro conjI impI)
  show "checkBuildingCollision64 rm P os \<longleftrightarrow> (\<exists>O' \<in> set os. amended_overlap64 rm P O')"
    by (simp add: checkBuildingCollision64_iff overlapsWith64_amended)
  show pair: "collidingBuildings64 rm [P, O']
                = (if amended_overlap64 rm P O' then [P, O'] else [])"
    by (simp add: collidingBuildings64_pair overlapsWith64_amended)
  {
    assume "absDiff64 rm (x64 P) (x64 O')
              = halfSum64 rm (amended_dim64 (width64 P)) (amended_dim64 (width64 O'))"
    then have no: "\<not> amended_overlap64 rm P O'"
      by (simp add: amended_overlap64_def num_lt_irrefl)
    then show "\<not> checkBuildingCollision64 rm P [O']"
      by (simp add: checkBuildingCollision64_iff overlapsWith64_amended)
    from no pair show "collidingBuildings64 rm [P, O'] = []" by simp
  }
  {
    assume h: "z64 P = z64 O' \<and> isNum (z64 P)
        \<and> num_lt (Num 0) (halfSum64 rm (amended_dim64 (depth64 P)) (amended_dim64 (depth64 O')))
        \<and> num_lt (absDiff64 rm (x64 P) (x64 O'))
                 (halfSum64 rm (amended_dim64 (width64 P)) (amended_dim64 (width64 O')))"
    have eq: "z64 P = z64 O'" using h by (elim conjE)
    have fin: "isNum (z64 P)" using h by (elim conjE)
    from fin have "absDiff64 rm (z64 P) (z64 P) = Num 0"
      by (cases "z64 P") (simp_all add: absDiff64_def roundTo_def)
    then have "absDiff64 rm (z64 P) (z64 O') = Num 0"
      by (simp only: eq [symmetric])
    with h have yes: "amended_overlap64 rm P O'"
      by (simp add: amended_overlap64_def)
    then show "checkBuildingCollision64 rm P [O']"
      by (simp add: checkBuildingCollision64_iff overlapsWith64_amended)
    from yes pair show "collidingBuildings64 rm [P, O'] = [P, O']" by simp
  }
qed

theorem collision_test_overlap_witness:
  "collidingBuildings64 exact
       [\<lparr>x64 = Num 10, z64 = Num 10, width64 = Some (Num 1), depth64 = None\<rparr>,
        \<lparr>x64 = Num 10.5, z64 = Num 10, width64 = Some (Num 1), depth64 = Some (Num 1)\<rparr>]
     = [\<lparr>x64 = Num 10, z64 = Num 10, width64 = Some (Num 1), depth64 = None\<rparr>,
        \<lparr>x64 = Num 10.5, z64 = Num 10, width64 = Some (Num 1), depth64 = Some (Num 1)\<rparr>]
   \<and> collidingBuildings64 exact
       [\<lparr>x64 = Num 10, z64 = Num 10, width64 = Some (Num 1), depth64 = None\<rparr>,
        \<lparr>x64 = Num 11, z64 = Num 10, width64 = Some (Num 1), depth64 = Some (Num 1)\<rparr>]
     = []"
proof -
  let ?P = "\<lparr>x64 = Num 10, z64 = Num 10, width64 = Some (Num 1), depth64 = None\<rparr>"
  let ?A = "\<lparr>x64 = Num 10.5, z64 = Num 10, width64 = Some (Num 1), depth64 = Some (Num 1)\<rparr>"
  let ?B = "\<lparr>x64 = Num 11, z64 = Num 10, width64 = Some (Num 1), depth64 = Some (Num 1)\<rparr>"
  have near: "z64 ?P = z64 ?A \<and> isNum (z64 ?P)
        \<and> num_lt (Num 0) (halfSum64 exact (amended_dim64 (depth64 ?P)) (amended_dim64 (depth64 ?A)))
        \<and> num_lt (absDiff64 exact (x64 ?P) (x64 ?A))
                 (halfSum64 exact (amended_dim64 (width64 ?P)) (amended_dim64 (width64 ?A)))"
    by (simp add: absDiff64_def halfSum64_def)
  have touch: "absDiff64 exact (x64 ?P) (x64 ?B)
         = halfSum64 exact (amended_dim64 (width64 ?P)) (amended_dim64 (width64 ?B))"
    by (simp add: absDiff64_def halfSum64_def)
  from collision_test_overlap [of exact ?P "[]" ?A] near
  have a: "collidingBuildings64 exact [?P, ?A] = [?P, ?A]" by blast
  from collision_test_overlap [of exact ?P "[]" ?B] touch
  have b: "collidingBuildings64 exact [?P, ?B] = []" by blast
  from a b show ?thesis by simp
qed

text \<open>
  C9, as stated, fails for two identical placements of negative width and depth, and for
  two identical placements at an infinite x: each is compared with the other, and the
  strict test fails (\<^verbatim>\<open>Infinity - Infinity\<close> is \<^verbatim>\<open>NaN\<close>), so none is reported. Every
  operation on the numbers of these inputs is exact on doubles.
\<close>

theorem identical_negative_counterexample:
  "collidingBuildings64 exact
       [\<lparr>x64 = Num 0, z64 = Num 0, width64 = Some (Num (- 1)), depth64 = Some (Num (- 1))\<rparr>,
        \<lparr>x64 = Num 0, z64 = Num 0, width64 = Some (Num (- 1)), depth64 = Some (Num (- 1))\<rparr>]
     = []
   \<and> collidingBuildings64 exact
       [\<lparr>x64 = PosInf, z64 = Num 0, width64 = Some (Num 1), depth64 = Some (Num 1)\<rparr>,
        \<lparr>x64 = PosInf, z64 = Num 0, width64 = Some (Num 1), depth64 = Some (Num 1)\<rparr>]
     = []"
  by (simp add: collidingBuildings64_pair overlapsWith64_def)

text \<open>
  C9 (amended): the placements a placement is compared with are those at every other
  index of the list, so a single placement is never reported, and two copies of a
  placement alone are reported exactly when the placement passes the test against itself.
  Two equal placements at different indices of a list are each compared with the other;
  both are reported when x and z are finite and the effective width and depth (after
  \<^verbatim>\<open>|| 1\<close>) are positive doubles.
\<close>

theorem self_excluded_by_index:
  "othersAt bs i = map (\<lambda>k. bs ! k) (filter (\<lambda>k. k \<noteq> i) [0..<length bs])
   \<and> collidingBuildings64 rm [p] = []
   \<and> collidingBuildings64 rm [p, p] = (if overlapsWith64 rm p p then [p, p] else [])
   \<and> (i < length bs \<and> j < length bs \<and> i \<noteq> j \<and> bs ! i = bs ! j
       \<longrightarrow> bs ! j \<in> set (othersAt bs i) \<and> bs ! i \<in> set (othersAt bs j))
   \<and> (i < length bs \<and> j < length bs \<and> i \<noteq> j \<and> bs ! i = bs ! j
        \<and> isNum (x64 (bs ! i)) \<and> isNum (z64 (bs ! i))
        \<and> positiveDouble rm (orOne64 (width64 (bs ! i)))
        \<and> positiveDouble rm (orOne64 (depth64 (bs ! i)))
       \<longrightarrow> checkBuildingCollision64 rm (bs ! i) (othersAt bs i)
           \<and> checkBuildingCollision64 rm (bs ! j) (othersAt bs j)
           \<and> bs ! i \<in> set (collidingBuildings64 rm bs))"
proof (intro conjI impI)
  show "othersAt bs i = map (\<lambda>k. bs ! k) (filter (\<lambda>k. k \<noteq> i) [0..<length bs])"
    by (rule othersAt_nth)
  show "collidingBuildings64 rm [p] = []"
    by (rule collidingBuildings64_single)
  show "collidingBuildings64 rm [p, p] = (if overlapsWith64 rm p p then [p, p] else [])"
    by (rule collidingBuildings64_pair)
  {
    assume h: "i < length bs \<and> j < length bs \<and> i \<noteq> j \<and> bs ! i = bs ! j"
    show "bs ! j \<in> set (othersAt bs i)" using set_othersAt [of j bs i] h by simp
    show "bs ! i \<in> set (othersAt bs j)" using set_othersAt [of i bs j] h by auto
  }
  {
    assume h: "i < length bs \<and> j < length bs \<and> i \<noteq> j \<and> bs ! i = bs ! j
        \<and> isNum (x64 (bs ! i)) \<and> isNum (z64 (bs ! i))
        \<and> positiveDouble rm (orOne64 (width64 (bs ! i)))
        \<and> positiveDouble rm (orOne64 (depth64 (bs ! i)))"
    have self: "overlapsWith64 rm (bs ! i) (bs ! i)"
      by (rule overlapsWith64_self; use h in \<open>elim conjE\<close>)
    have ji: "bs ! j \<in> set (othersAt bs i)" using set_othersAt [of j bs i] h by simp
    have ij: "bs ! i \<in> set (othersAt bs j)" using set_othersAt [of i bs j] h by auto
    show ci: "checkBuildingCollision64 rm (bs ! i) (othersAt bs i)"
      using ji self h by (auto simp: checkBuildingCollision64_iff)
    show "checkBuildingCollision64 rm (bs ! j) (othersAt bs j)"
      using ij self h by (auto simp: checkBuildingCollision64_iff)
    show "bs ! i \<in> set (collidingBuildings64 rm bs)"
      using ci collidingBuildings64_mem [of i bs rm] h by simp
  }
qed

theorem self_excluded_by_index_witness:
  "collidingBuildings64 exact
       [\<lparr>x64 = Num 3, z64 = Num 4, width64 = None, depth64 = Some (Num 2)\<rparr>,
        \<lparr>x64 = Num 3, z64 = Num 4, width64 = None, depth64 = Some (Num 2)\<rparr>]
     = [\<lparr>x64 = Num 3, z64 = Num 4, width64 = None, depth64 = Some (Num 2)\<rparr>,
        \<lparr>x64 = Num 3, z64 = Num 4, width64 = None, depth64 = Some (Num 2)\<rparr>]
   \<and> checkBuildingCollision64 exact
        \<lparr>x64 = Num 3, z64 = Num 4, width64 = None, depth64 = Some (Num 2)\<rparr>
        (othersAt [\<lparr>x64 = Num 3, z64 = Num 4, width64 = None, depth64 = Some (Num 2)\<rparr>,
                   \<lparr>x64 = Num 3, z64 = Num 4, width64 = None, depth64 = Some (Num 2)\<rparr>] 0)"
proof -
  let ?p = "\<lparr>x64 = Num 3, z64 = Num 4, width64 = None, depth64 = Some (Num 2)\<rparr>"
  have pre: "(0::nat) < length [?p, ?p] \<and> (1::nat) < length [?p, ?p] \<and> (0::nat) \<noteq> 1
        \<and> [?p, ?p] ! 0 = [?p, ?p] ! 1
        \<and> isNum (x64 ([?p, ?p] ! 0)) \<and> isNum (z64 ([?p, ?p] ! 0))
        \<and> positiveDouble exact (orOne64 (width64 ([?p, ?p] ! 0)))
        \<and> positiveDouble exact (orOne64 (depth64 ([?p, ?p] ! 0)))"
    by (simp add: exact_def)
  from self_excluded_by_index [of "[?p, ?p]" 0 exact ?p 1] pre
  have c: "checkBuildingCollision64 exact ([?p, ?p] ! 0) (othersAt [?p, ?p] 0)"
    and m: "collidingBuildings64 exact [?p, ?p]
              = (if overlapsWith64 exact ?p ?p then [?p, ?p] else [])"
    by blast+
  have "overlapsWith64 exact ?p ?p"
    by (simp add: overlapsWith64_def)
  with c m show ?thesis by simp
qed

section \<open>Generator: the shape of the scene\<close>

lemma collect_createFloor_Inr:
  "\<forall>i \<in> set is. i < length (cfg_floors cfg) \<Longrightarrow>
   collect is (createFloor cfg)
     = Inr (concat (map (\<lambda>i. floorObjects cfg (cfg_floors cfg ! i) i) is))"
  by (induction "is") (simp_all add: createFloor_def)

lemma collect_createFloor_Inl:
  "\<exists>i \<in> set is. \<not> i < length (cfg_floors cfg) \<Longrightarrow>
   collect is (createFloor cfg) = Inl TypeError"
proof (induction "is")
  case Nil
  then show ?case by simp
next
  case (Cons i "is")
  show ?case
  proof (cases "i < length (cfg_floors cfg)")
    case True
    with Cons.prems have "\<exists>k \<in> set is. \<not> k < length (cfg_floors cfg)" by auto
    then show ?thesis using Cons.IH True by (simp add: createFloor_def)
  next
    case False
    then show ?thesis by (simp add: createFloor_def)
  qed
qed

lemma forLoopE_createFloor:
  "forLoopE (cfg_numFloors cfg) (createFloor cfg) =
     (if nat (cfg_numFloors cfg) \<le> length (cfg_floors cfg)
      then Inr (allFloors cfg) else Inl TypeError)"
proof (cases "nat (cfg_numFloors cfg) \<le> length (cfg_floors cfg)")
  case True
  then have "\<forall>i \<in> set [0..<nat (cfg_numFloors cfg)]. i < length (cfg_floors cfg)" by simp
  from collect_createFloor_Inr [OF this] True show ?thesis
    by (simp add: forLoopE_def forLoop_def allFloors_def)
next
  case False
  then have "length (cfg_floors cfg) \<in> set [0..<nat (cfg_numFloors cfg)]" by simp
  then have "\<exists>i \<in> set [0..<nat (cfg_numFloors cfg)]. \<not> i < length (cfg_floors cfg)"
    by blast
  from collect_createFloor_Inl [OF this] False show ?thesis
    by (simp add: forLoopE_def)
qed

lemma BuildingScene_eq:
  "BuildingScene cfg =
     (if nat (cfg_numFloors cfg) \<le> length (cfg_floors cfg)
      then Inr (baseStack (cfg_base cfg) @ columns (cfg_base cfg) @ corners (cfg_base cfg)
                @ allFloors cfg @ roofStack cfg)
      else Inl TypeError)"
  by (simp add: BuildingScene_def forLoopE_createFloor)

lemma buildingConfig_valid: "structurally_valid buildingConfig"
  by (simp add: structurally_valid_def buildingConfig_def defaultFloor_def valid_windows_def
        valid_divider_def valid_base_def valid_roof_def valid_trim_def valid_stage_def
        list_all_iff)

lemma buildingConfig_scene: "\<exists>scene. BuildingScene buildingConfig = Inr scene"
  by (simp add: BuildingScene_eq buildingConfig_def)

lemma buildingConfig_floor:
  "i < 12 \<Longrightarrow> cfg_floors buildingConfig ! i = defaultFloor"
  by (simp add: buildingConfig_def)

section \<open>Generator: base stack\<close>

text \<open>
  C5, as stated, fails on the configuration of the source: the middle layer and the top
  trim of the base reach above \<open>y = 0\<close>.
\<close>

theorem base_stack_above_zero_counterexample:
  "\<not> sits_below_zero (baseStack (cfg_base buildingConfig))
   \<and> top_y (primitives (baseStack (cfg_base buildingConfig)) ! 1) = Finite 0.33
   \<and> top_y (primitives (baseStack (cfg_base buildingConfig)) ! 2) = Finite 0.77"
  by (simp add: sits_below_zero_def primitives_def baseStack_def buildingConfig_def
        lineSegments_def top_y_def)

text \<open>
  C5 (amended): the base stack is the outer platform, the middle layer and the top trim,
  the first three objects of the scene. The platform is centred at minus half the base
  height: it spans from minus the base height to \<open>y = 0\<close>, its top touching 0.
  The middle layer is centred at 0 and spans 0.15 of the base height on either side; the
  top trim is centred at 0.25 of the base height and rests on the middle layer, its top at
  0.35 of the base height. With a positive base height both reach above \<open>y = 0\<close>.
\<close>

theorem base_stack_levels:
  "\<exists>b m t. baseStack base
             = [(BaseLine, [], b), (MiddleLayerLine, [], m), (TopTrimLine, [], t)]
     \<and> pos_y b = Finite (- base_height base / 2)
     \<and> bottom_y b = Finite (- base_height base) \<and> top_y b = Finite 0
     \<and> pos_y m = Finite 0
     \<and> bottom_y m = Finite (- (base_height base * 0.15))
     \<and> top_y m = Finite (base_height base * 0.15)
     \<and> pos_y t = Finite (base_height base * 0.25)
     \<and> bottom_y t = top_y m
     \<and> top_y t = Finite (base_height base * 0.35)
     \<and> (0 < base_height base \<longrightarrow> \<not> jle (top_y m) 0 \<and> \<not> jle (top_y t) 0)
     \<and> (\<forall>cfg scene. BuildingScene cfg = Inr scene \<and> cfg_base cfg = base
           \<longrightarrow> take 3 scene = baseStack base)"
  by (simp add: baseStack_def lineSegments_def top_y_def bottom_y_def BuildingScene_eq
        split: if_splits)

theorem base_stack_levels_witness:
  "0 < base_height (cfg_base buildingConfig)
   \<and> (\<exists>scene. BuildingScene buildingConfig = Inr scene
         \<and> take 3 scene = baseStack (cfg_base buildingConfig))
   \<and> (\<exists>m t. baseStack (cfg_base buildingConfig) ! 1 = (MiddleLayerLine, [], m)
         \<and> baseStack (cfg_base buildingConfig) ! 2 = (TopTrimLine, [], t)
         \<and> \<not> jle (top_y m) 0 \<and> \<not> jle (top_y t) 0)"
proof -
  have h: "0 < base_height (cfg_base buildingConfig)"
    by (simp add: buildingConfig_def)
  have ok: "\<exists>scene. BuildingScene buildingConfig = Inr scene"
    by (simp add: BuildingScene_eq buildingConfig_def)
  show ?thesis
    using base_stack_levels [of "cfg_base buildingConfig"] h ok by auto
qed

section \<open>Generator: roof stack\<close>

text \<open>
  C2, as stated, fails on the configuration of the source: the tower base does not rest
  on the roof trim, the stage before it.
\<close>

theorem tower_base_not_on_trim_counterexample:
  "\<not> consecutive_stacked (roofStages buildingConfig)
   \<and> \<not> stackedOn (roofStages buildingConfig ! 2) (roofStages buildingConfig ! 1)
   \<and> top_y (roofStages buildingConfig ! 1) = Finite 41.2
   \<and> pos_y (roofStages buildingConfig ! 2) = Finite 41.4
   \<and> geo_h (roofStages buildingConfig ! 2) = 1"
  by (simp add: roofStages_def primitives_def roofStack_def roofBaseY_def buildingConfig_def
        lineSegments_def stackedOn_def top_y_def)

text \<open>
  C2 (amended): the first six objects of the roof are the roof slab, the roof trim, the
  tower base, the tower main body, the tower top and the spire. The slab starts at the top
  of the last floor level; the roof trim and the tower base both rest on the slab; the
  tower main body, the tower top and the spire each rest on the stage before them. To
  rest on a stage is to have one's centre at the top of that stage plus half of one's
  own height. These objects are among the last fourteen objects of the scene, the roof.
\<close>

theorem roof_stack_levels:
  "(\<exists>r t tb tm tt sp.
     roofStages cfg = [r, t, tb, tm, tt, sp]
     \<and> map fst (take 6 (roofStack cfg))
         = [RoofLine, RoofTrimLine, TowerBaseLine, TowerLine, TowerTopLine, SpireLine]
     \<and> bottom_y r = Finite (roofBaseY cfg)
     \<and> stackedOn t r \<and> stackedOn tb r
     \<and> stackedOn tm tb \<and> stackedOn tt tm \<and> stackedOn sp tt)
   \<and> (\<forall>scene. BuildingScene cfg = Inr scene
         \<longrightarrow> drop (length scene - 14) scene = roofStack cfg)"
proof (intro conjI allI impI)
  show "\<exists>r t tb tm tt sp.
     roofStages cfg = [r, t, tb, tm, tt, sp]
     \<and> map fst (take 6 (roofStack cfg))
         = [RoofLine, RoofTrimLine, TowerBaseLine, TowerLine, TowerTopLine, SpireLine]
     \<and> bottom_y r = Finite (roofBaseY cfg)
     \<and> stackedOn t r \<and> stackedOn tb r
     \<and> stackedOn tm tb \<and> stackedOn tt tm \<and> stackedOn sp tt"
    by (simp add: roofStages_def primitives_def roofStack_def
        lineSegments_def stackedOn_def top_y_def bottom_y_def Let_def)
next
  fix scene
  assume "BuildingScene cfg = Inr scene"
  then have "scene = (baseStack (cfg_base cfg) @ columns (cfg_base cfg)
                     @ corners (cfg_base cfg) @ allFloors cfg) @ roofStack cfg"
    by (simp add: BuildingScene_eq split: if_splits)
  moreover have "length (roofStack cfg) = 14"
    by (simp add: roofStack_def Let_def)
  ultimately show "drop (length scene - 14) scene = roofStack cfg"
    by simp
qed

theorem roof_stack_levels_witness:
  "\<exists>scene. BuildingScene buildingConfig = Inr scene
     \<and> drop (length scene - 14) scene = roofStack buildingConfig
     \<and> stackedOn (roofStages buildingConfig ! 2) (roofStages buildingConfig ! 0)"
proof -
  obtain scene where s: "BuildingScene buildingConfig = Inr scene"
    using buildingConfig_scene by blast
  from roof_stack_levels [of buildingConfig] s
  have "drop (length scene - 14) scene = roofStack buildingConfig"
    "stackedOn (roofStages buildingConfig ! 2) (roofStages buildingConfig ! 0)"
    by auto
  with s show ?thesis by blast
qed

section \<open>Generator: where the objects of the scene come from\<close>

lemma in_forLoop: "x \<in> set (forLoop n body) \<longleftrightarrow> (\<exists>k < nat n. x \<in> set (body k))"
  by (auto simp: forLoop_def)

lemma baseStack_labels:
  "(n, idx, p) \<in> set (baseStack base) \<Longrightarrow> n \<in> {BaseLine, MiddleLayerLine, TopTrimLine}"
  by (auto simp: baseStack_def Let_def)

lemma columns_labels:
  "(n, idx, p) \<in> set (columns base) \<Longrightarrow> n \<in> {ColumnBase, Column, ColumnTop}"
  by (auto simp: columns_def columnsOnSide_def in_forLoop Let_def split: if_splits)

lemma corners_labels: "(n, idx, p) \<in> set (corners base) \<Longrightarrow> n = Corner"
  by (auto simp: corners_def in_forLoop Let_def)

lemma roofStack_labels:
  "(n, idx, p) \<in> set (roofStack cfg) \<Longrightarrow>
   n \<in> {RoofLine, RoofTrimLine, TowerBaseLine, TowerLine, TowerTopLine, SpireLine,
        FrontParapetLine, FrontParapetTopLine, BackParapetLine, BackParapetTopLine,
        LeftParapetLine, LeftParapetTopLine, RightParapetLine, RightParapetTopLine}"
  by (auto simp: roofStack_def Let_def)

lemma sideWindow_labels:
  "(n, idx, p) \<in> set (sideWindow cfg w i j) \<Longrightarrow>
   n \<in> {SideFrameLine, SidePaneLine, SideVerticalDividerLine, SideHorizontalDividerLine,
        RightFrameLine, RightPaneLine, RightVerticalDividerLine, RightHorizontalDividerLine}"
  by (auto simp: sideWindow_def Let_def)

lemma floorDivider_labels:
  "(n, idx, p) \<in> set (floorDivider cfg d i) \<Longrightarrow>
   n \<in> {DividerLine, UpperDividerLine, LowerDividerLine,
        AccentLine, BackAccentLine, LeftAccentLine, RightAccentLine}"
  by (auto simp: floorDivider_def in_forLoop Let_def)

section \<open>Generator: front windows\<close>

lemma frontBackWindow_front:
  assumes "n \<in> set frontParts" "(n, idx, p) \<in> set (frontBackWindow cfg w i j)"
  shows "idx = [i, j] \<and>
     pos_x p = Finite (- cfg_width cfg / 2 + win_spacing w
                       + real j * (win_width w + win_spacing w)) \<and>
     pos_y p = Finite (real i * cfg_floorHeight cfg + win_height w / 2) \<and>
     pos_z p = Finite (cfg_depth cfg / 2)"
  using assms
  by (auto simp: frontBackWindow_def frontParts_def position_set_def lineSegments_def Let_def)

lemma frontBackWindow_front_ex:
  assumes "n \<in> set frontParts"
  shows "\<exists>p. (n, [i, j], p) \<in> set (frontBackWindow cfg w i j)"
  using assms by (auto simp: frontBackWindow_def frontParts_def Let_def)

lemma floorObjects_front:
  assumes "n \<in> set frontParts"
  shows "(n, idx, p) \<in> set (floorObjects cfg fc i) \<longleftrightarrow>
         (\<exists>j < nat (count_front (fl_windows fc)).
            (n, idx, p) \<in> set (frontBackWindow cfg (fl_windows fc) i j))"
  using assms sideWindow_labels [of n idx p cfg "fl_windows fc" i]
        floorDivider_labels [of n idx p cfg "fl_divider fc" i]
  by (auto simp: floorObjects_def in_forLoop frontParts_def Let_def)

lemma scene_front:
  assumes "n \<in> set frontParts" "BuildingScene cfg = Inr scene"
  shows "(n, idx, p) \<in> set scene \<longleftrightarrow>
         (\<exists>i < nat (cfg_numFloors cfg).
          \<exists>j < nat (count_front (fl_windows (cfg_floors cfg ! i))).
            (n, idx, p) \<in> set (frontBackWindow cfg (fl_windows (cfg_floors cfg ! i)) i j))"
proof -
  have scene: "scene = baseStack (cfg_base cfg) @ columns (cfg_base cfg)
                 @ corners (cfg_base cfg) @ allFloors cfg @ roofStack cfg"
    using assms(2) by (simp add: BuildingScene_eq split: if_splits)
  have "(n, idx, p) \<in> set scene \<longleftrightarrow> (n, idx, p) \<in> set (allFloors cfg)"
    using assms(1) baseStack_labels [of n idx p "cfg_base cfg"]
          columns_labels [of n idx p "cfg_base cfg"]
          corners_labels [of n idx p "cfg_base cfg"]
          roofStack_labels [of n idx p cfg]
    by (auto simp: scene frontParts_def)
  then show ?thesis
    using assms(1) by (simp add: allFloors_def in_forLoop floorObjects_front)
qed

text \<open>
  C7: when the generator succeeds, then for every floor \<open>i\<close> and every front window
  index \<open>j\<close> below the front count of that floor, each of the four parts of the window
  assembly (frame, pane, vertical divider, horizontal divider) is in the scene for
  \<open>(i, j)\<close>, and is positioned at
  \<open>x = - width / 2 + spacing + j * (windowWidth + spacing)\<close>,
  \<open>y = i * floorHeight + windowHeight / 2\<close>, \<open>z = depth / 2\<close>.
\<close>

theorem front_window_position:
  assumes "BuildingScene cfg = Inr scene"
    and "i < nat (cfg_numFloors cfg)"
    and "int j < count_front (fl_windows (cfg_floors cfg ! i))"
    and "n \<in> set frontParts"
  shows "(\<exists>p. (n, [i, j], p) \<in> set scene) \<and>
         (\<forall>p. (n, [i, j], p) \<in> set scene \<longrightarrow>
            pos_x p = Finite (- cfg_width cfg / 2 + win_spacing (fl_windows (cfg_floors cfg ! i))
                              + real j * (win_width (fl_windows (cfg_floors cfg ! i))
                                          + win_spacing (fl_windows (cfg_floors cfg ! i)))) \<and>
            pos_y p = Finite (real i * cfg_floorHeight cfg
                              + win_height (fl_windows (cfg_floors cfg ! i)) / 2) \<and>
            pos_z p = Finite (cfg_depth cfg / 2))"
proof (intro conjI allI impI)
  let ?w = "fl_windows (cfg_floors cfg ! i)"
  have j: "j < nat (count_front ?w)" using assms(3) by simp
  obtain p where "(n, [i, j], p) \<in> set (frontBackWindow cfg ?w i j)"
    using frontBackWindow_front_ex [OF assms(4)] by blast
  then have "(n, [i, j], p) \<in> set scene"
    using scene_front [OF assms(4) assms(1)] assms(2) j by blast
  then show "\<exists>p. (n, [i, j], p) \<in> set scene" ..
next
  fix p
  assume "(n, [i, j], p) \<in> set scene"
  then obtain i' j' where
    m: "(n, [i, j], p) \<in> set (frontBackWindow cfg (fl_windows (cfg_floors cfg ! i')) i' j')"
    using scene_front [OF assms(4) assms(1)] by blast
  from frontBackWindow_front [OF assms(4) m] have "i' = i" "j' = j" by simp_all
  with frontBackWindow_front [OF assms(4) m]
  show "pos_x p = Finite (- cfg_width cfg / 2 + win_spacing (fl_windows (cfg_floors cfg ! i))
                              + real j * (win_width (fl_windows (cfg_floors cfg ! i))
                                          + win_spacing (fl_windows (cfg_floors cfg ! i))))"
    and "pos_y p = Finite (real i * cfg_floorHeight cfg
                              + win_height (fl_windows (cfg_floors cfg ! i)) / 2)"
    and "pos_z p = Finite (cfg_depth cfg / 2)"
    by simp_all
qed

theorem front_window_position_witness:
  "\<exists>scene p. BuildingScene buildingConfig = Inr scene
     \<and> (FrameLine, [2, 3], p) \<in> set scene
     \<and> pos_x p = Finite 8.1 \<and> pos_y p = Finite 7.5 \<and> pos_z p = Finite 9"
proof -
  obtain scene where s: "BuildingScene buildingConfig = Inr scene"
    using buildingConfig_scene by blast
  have i: "(2::nat) < nat (cfg_numFloors buildingConfig)"
    by (simp add: buildingConfig_def)
  have j: "int 3 < count_front (fl_windows (cfg_floors buildingConfig ! 2))"
    by (simp add: buildingConfig_floor defaultFloor_def)
  have n: "FrameLine \<in> set frontParts" by (simp add: frontParts_def)
  from front_window_position [OF s i j n]
  obtain p where p: "(FrameLine, [2, 3], p) \<in> set scene"
    and pos: "pos_x p = Finite (- cfg_width buildingConfig / 2
                 + win_spacing (fl_windows (cfg_floors buildingConfig ! 2))
                 + real 3 * (win_width (fl_windows (cfg_floors buildingConfig ! 2))
                             + win_spacing (fl_windows (cfg_floors buildingConfig ! 2))))"
      "pos_y p = Finite (real 2 * cfg_floorHeight buildingConfig
                 + win_height (fl_windows (cfg_floors buildingConfig ! 2)) / 2)"
      "pos_z p = Finite (cfg_depth buildingConfig / 2)"
    by blast
  have "pos_x p = Finite 8.1" "pos_y p = Finite 7.5" "pos_z p = Finite 9"
    using pos by (simp_all add: buildingConfig_floor defaultFloor_def)
                 (simp_all add: buildingConfig_def)
  with s p show ?thesis by blast
qed

section \<open>Generator: window counts\<close>

lemma countOnFloor_append [simp]:
  "countOnFloor n i (xs @ ys) = countOnFloor n i xs + countOnFloor n i ys"
  by (simp add: countOnFloor_def)

lemma countOnFloor_Nil [simp]: "countOnFloor n i [] = 0"
  by (simp add: countOnFloor_def)

lemma countOnFloor_absent:
  "(\<And>idx p. (n, idx, p) \<notin> set objs) \<Longrightarrow> countOnFloor n i objs = 0"
  by (auto simp: countOnFloor_def filter_empty_conv)

lemma countOnFloor_concat:
  "countOnFloor n i (concat xss) = sum_list (map (countOnFloor n i) xss)"
  by (induction xss) simp_all

lemma sum_list_const:
  "(\<And>x. x \<in> set xs \<Longrightarrow> f x = (c::nat)) \<Longrightarrow> sum_list (map f xs) = length xs * c"
  by (induction xs) simp_all

lemma sum_list_single:
  "distinct xs \<Longrightarrow> i \<in> set xs \<Longrightarrow> (\<And>x. x \<in> set xs \<Longrightarrow> x \<noteq> i \<Longrightarrow> f x = (0::nat))
   \<Longrightarrow> sum_list (map f xs) = f i"
proof (induction xs)
  case Nil
  then show ?case by simp
next
  case (Cons x xs)
  show ?case
  proof (cases "x = i")
    case True
    then have "i \<notin> set xs" using Cons.prems(1) by simp
    then have "sum_list (map f xs) = length xs * 0"
      using Cons.prems(3) by (intro sum_list_const) auto
    then show ?thesis using True by simp
  next
    case False
    then have "f x = 0" "i \<in> set xs" using Cons.prems by auto
    then show ?thesis using Cons by simp
  qed
qed

lemma countOnFloor_forLoop_const:
  assumes "\<And>k. k < nat m \<Longrightarrow> countOnFloor n i (body k) = c"
  shows "countOnFloor n i (forLoop m body) = nat m * c"
proof -
  have "sum_list (map (\<lambda>k. countOnFloor n i (body k)) [0..<nat m]) = length [0..<nat m] * c"
    by (rule sum_list_const) (use assms in simp)
  then show ?thesis by (simp add: forLoop_def countOnFloor_concat comp_def)
qed

lemma countOnFloor_forLoop_single:
  assumes "i < nat m" "\<And>k. k < nat m \<Longrightarrow> k \<noteq> i \<Longrightarrow> countOnFloor n i (body k) = 0"
  shows "countOnFloor n i (forLoop m body) = countOnFloor n i (body i)"
proof -
  have "sum_list (map (\<lambda>k. countOnFloor n i (body k)) [0..<nat m]) = countOnFloor n i (body i)"
    by (rule sum_list_single) (use assms in simp_all)
  then show ?thesis by (simp add: forLoop_def countOnFloor_concat comp_def)
qed

lemma countOnFloor_frontBackWindow:
  assumes "n \<in> set (frontParts @ backParts)"
  shows "countOnFloor n i (frontBackWindow cfg w i' j) = (if i' = i then 1 else 0)"
  using assms
  by (auto simp: countOnFloor_def frontBackWindow_def frontParts_def backParts_def Let_def)

lemma countOnFloor_floorObjects:
  assumes "n \<in> set (frontParts @ backParts)"
  shows "countOnFloor n i (floorObjects cfg fc i')
           = (if i' = i then nat (count_front (fl_windows fc)) else 0)"
proof -
  have side: "countOnFloor n i (forLoop (count_side (fl_windows fc))
                                 (sideWindow cfg (fl_windows fc) i')) = 0"
    using assms sideWindow_labels [of n _ _ cfg "fl_windows fc" i']
    by (intro countOnFloor_absent) (auto simp: in_forLoop frontParts_def backParts_def)
  have dv: "countOnFloor n i (floorDivider cfg (fl_divider fc) i') = 0"
    using assms floorDivider_labels [of n _ _ cfg "fl_divider fc" i']
    by (intro countOnFloor_absent) (auto simp: frontParts_def backParts_def)
  have line: "countOnFloor n i [(FloorLine, [i'], l)] = 0" for l
    using assms by (auto simp: countOnFloor_def frontParts_def backParts_def)
  have front: "countOnFloor n i (forLoop (count_front (fl_windows fc))
                                 (frontBackWindow cfg (fl_windows fc) i'))
                 = nat (count_front (fl_windows fc)) * (if i' = i then 1 else 0)"
    by (rule countOnFloor_forLoop_const) (rule countOnFloor_frontBackWindow [OF assms])
  show ?thesis
    unfolding floorObjects_def Let_def
    by (simp only: countOnFloor_append side dv line front countOnFloor_Nil
          if_distrib [of "countOnFloor n i"]) simp
qed

lemma countOnFloor_scene:
  assumes "n \<in> set (frontParts @ backParts)" "BuildingScene cfg = Inr scene"
    and "i < nat (cfg_numFloors cfg)"
  shows "countOnFloor n i scene = nat (count_front (fl_windows (cfg_floors cfg ! i)))"
proof -
  have scene: "scene = baseStack (cfg_base cfg) @ columns (cfg_base cfg)
                 @ corners (cfg_base cfg) @ allFloors cfg @ roofStack cfg"
    using assms(2) by (simp add: BuildingScene_eq split: if_splits)
  have b: "countOnFloor n i (baseStack (cfg_base cfg)) = 0"
    using assms(1) baseStack_labels [of n _ _ "cfg_base cfg"]
    by (intro countOnFloor_absent) (auto simp: frontParts_def backParts_def)
  have c: "countOnFloor n i (columns (cfg_base cfg)) = 0"
    using assms(1) columns_labels [of n _ _ "cfg_base cfg"]
    by (intro countOnFloor_absent) (auto simp: frontParts_def backParts_def)
  have k: "countOnFloor n i (corners (cfg_base cfg)) = 0"
    using assms(1) corners_labels [of n _ _ "cfg_base cfg"]
    by (intro countOnFloor_absent) (auto simp: frontParts_def backParts_def)
  have r: "countOnFloor n i (roofStack cfg) = 0"
    using assms(1) roofStack_labels [of n _ _ cfg]
    by (intro countOnFloor_absent) (auto simp: frontParts_def backParts_def)
  have f: "countOnFloor n i (allFloors cfg)
             = countOnFloor n i (floorObjects cfg (cfg_floors cfg ! i) i)"
    unfolding allFloors_def
    by (rule countOnFloor_forLoop_single [OF assms(3)])
       (simp add: countOnFloor_floorObjects [OF assms(1)])
  show ?thesis
    using b c k r f by (simp add: scene countOnFloor_floorObjects [OF assms(1)])
qed

text \<open>
  C6: for a structurally valid configuration the generator succeeds, and on every floor
  the number of objects of each of the four parts of the front window assembly is the
  front count of that floor; the same holds for each of the four parts of the back
  window assembly, so there are as many back assemblies as front assemblies.
\<close>

theorem window_count_fidelity:
  assumes "structurally_valid cfg"
  shows "\<exists>scene. BuildingScene cfg = Inr scene \<and>
           (\<forall>i < nat (cfg_numFloors cfg).
              (\<forall>n \<in> set frontParts.
                 int (countOnFloor n i scene) = count_front (fl_windows (cfg_floors cfg ! i))) \<and>
              (\<forall>n \<in> set backParts.
                 int (countOnFloor n i scene) = count_front (fl_windows (cfg_floors cfg ! i))) \<and>
              countOnFloor BackFrameLine i scene = countOnFloor FrameLine i scene)"
proof -
  let ?scene = "baseStack (cfg_base cfg) @ columns (cfg_base cfg)
                 @ corners (cfg_base cfg) @ allFloors cfg @ roofStack cfg"
  have len: "length (cfg_floors cfg) = nat (cfg_numFloors cfg)"
    using assms by (simp add: structurally_valid_def)
  then have ok: "BuildingScene cfg = Inr ?scene"
    by (simp add: BuildingScene_eq)
  have cnt: "int (countOnFloor n i ?scene) = count_front (fl_windows (cfg_floors cfg ! i))"
    if "n \<in> set (frontParts @ backParts)" "i < nat (cfg_numFloors cfg)" for n i
  proof -
    have "valid_windows (fl_windows (cfg_floors cfg ! i))"
      using assms that(2) len by (simp add: structurally_valid_def list_all_length)
    then have "0 \<le> count_front (fl_windows (cfg_floors cfg ! i))"
      by (simp add: valid_windows_def)
    then show ?thesis
      using countOnFloor_scene [OF that(1) ok that(2)] by simp
  qed
  have "countOnFloor BackFrameLine i ?scene = countOnFloor FrameLine i ?scene"
    if "i < nat (cfg_numFloors cfg)" for i
    using cnt [of BackFrameLine i] cnt [of FrameLine i] that
    by (simp add: frontParts_def backParts_def)
  with cnt ok show ?thesis by (intro exI [of _ ?scene]) simp
qed

theorem window_count_fidelity_witness:
  "structurally_valid buildingConfig
   \<and> (\<exists>scene. BuildingScene buildingConfig = Inr scene
         \<and> countOnFloor FrameLine 3 scene = 5 \<and> countOnFloor BackFrameLine 3 scene = 5)"
proof -
  have f: "count_front (fl_windows (cfg_floors buildingConfig ! 3)) = 5"
    by (simp add: buildingConfig_floor defaultFloor_def)
  have n: "(3::nat) < nat (cfg_numFloors buildingConfig)"
    by (simp add: buildingConfig_def)
  obtain scene where s: "BuildingScene buildingConfig = Inr scene"
    and c: "\<forall>i < nat (cfg_numFloors buildingConfig).
              (\<forall>n \<in> set frontParts.
                 int (countOnFloor n i scene)
                   = count_front (fl_windows (cfg_floors buildingConfig ! i))) \<and>
              (\<forall>n \<in> set backParts.
                 int (countOnFloor n i scene)
                   = count_front (fl_windows (cfg_floors buildingConfig ! i))) \<and>
              countOnFloor BackFrameLine i scene = countOnFloor FrameLine i scene"
    using window_count_fidelity [OF buildingConfig_valid] by blast
  from c n f have "int (countOnFloor FrameLine 3 scene) = 5"
    "countOnFloor BackFrameLine 3 scene = countOnFloor FrameLine 3 scene"
    by (auto simp: frontParts_def)
  with s buildingConfig_valid show ?thesis by auto
qed

section \<open>Generator: mirrored objects\<close>

lemma jneg_jneg [simp]: "jneg (jneg a) = a"
  by (cases a) simp_all

lemma reflect_reflect [simp]: "reflect ax (reflect ax p) = p"
  by (cases ax) simp_all

lemma mirrored_iff:
  "mirrored objs \<longleftrightarrow>
     (\<forall>n idx q m ax. (n, idx, q) \<in> set objs \<longrightarrow> counterpart n = Some (m, ax)
        \<longrightarrow> (m, idx, reflect ax q) \<in> set objs)"
  by (fastforce simp: mirrored_def list_all_iff split: option.splits)

lemma mirrored_append: "mirrored xs \<Longrightarrow> mirrored ys \<Longrightarrow> mirrored (xs @ ys)"
  unfolding mirrored_iff by auto

lemma mirrored_forLoop: "(\<And>k. mirrored (body k)) \<Longrightarrow> mirrored (forLoop n body)"
  unfolding mirrored_iff in_forLoop by blast

lemma mirrored_plain:
  "(\<And>n idx p. (n, idx, p) \<in> set objs \<Longrightarrow> counterpart n = None) \<Longrightarrow> mirrored objs"
  unfolding mirrored_iff by fastforce

lemma mirrored_frontBackWindow: "mirrored (frontBackWindow cfg w i j)"
  by (simp add: mirrored_def frontBackWindow_def Let_def position_set_def lineSegments_def)

lemma mirrored_sideWindow: "mirrored (sideWindow cfg w i j)"
  by (simp add: mirrored_def sideWindow_def Let_def position_set_def lineSegments_def)

lemma mirrored_roofStack: "mirrored (roofStack cfg)"
  by (simp add: mirrored_def roofStack_def Let_def lineSegments_def)

lemma mirrored_floorDivider: "mirrored (floorDivider cfg d i)"
proof -
  have head: "mirrored [(DividerLine, [i], a), (UpperDividerLine, [i], b),
                        (LowerDividerLine, [i], c)]" for a b c
    by (simp add: mirrored_def)
  show ?thesis
    unfolding floorDivider_def Let_def
    by (intro mirrored_append mirrored_forLoop head)
       (simp_all add: mirrored_def position_set_def lineSegments_def)
qed

lemma mirrored_floorObjects: "mirrored (floorObjects cfg fc i)"
proof -
  have head: "mirrored [(FloorLine, [i], a)]" for a
    by (simp add: mirrored_def)
  have tail: "mirrored (if c then floorDivider cfg (fl_divider fc) i else [])" for c
    by (simp add: mirrored_floorDivider) (simp add: mirrored_def)
  show ?thesis
    unfolding floorObjects_def Let_def
    by (intro mirrored_append mirrored_forLoop head tail
          mirrored_frontBackWindow mirrored_sideWindow)
qed

lemma mirrored_scene:
  assumes "BuildingScene cfg = Inr scene"
  shows "mirrored scene"
proof -
  have scene: "scene = baseStack (cfg_base cfg) @ columns (cfg_base cfg)
                 @ corners (cfg_base cfg) @ allFloors cfg @ roofStack cfg"
    using assms by (simp add: BuildingScene_eq split: if_splits)
  have b: "mirrored (baseStack (cfg_base cfg))"
    by (rule mirrored_plain) (use baseStack_labels in fastforce)
  have c: "mirrored (columns (cfg_base cfg))"
    by (rule mirrored_plain) (use columns_labels in fastforce)
  have k: "mirrored (corners (cfg_base cfg))"
    by (rule mirrored_plain) (use corners_labels in fastforce)
  have f: "mirrored (allFloors cfg)"
    unfolding allFloors_def by (intro mirrored_forLoop mirrored_floorObjects)
  show ?thesis
    unfolding scene by (intro mirrored_append b c k f mirrored_roofStack)
qed

text \<open>
  C3: every back, right or other-side object of the scene (the back windows, the right
  side windows, the back and right divider accents, the back and right parapets and their
  top trims) has a counterpart in the scene, made in the same pass of the loops, from
  which it differs in nothing but the mirrored coordinate: dimensions, colour and the two
  other coordinates are equal, and the mirrored coordinate is negated.
\<close>

theorem clones_are_mirror_images:
  assumes "BuildingScene cfg = Inr scene"
    and "(n, idx, q) \<in> set scene"
    and "counterpart n = Some (m, ax)"
  shows "\<exists>p. (m, idx, p) \<in> set scene \<and> q = reflect ax p
           \<and> geo_w q = geo_w p \<and> geo_h q = geo_h p \<and> geo_d q = geo_d p
           \<and> color q = color p \<and> pos_y q = pos_y p
           \<and> (case ax of
                 AxisX \<Rightarrow> pos_x q = jneg (pos_x p) \<and> pos_z q = pos_z p
               | AxisZ \<Rightarrow> pos_z q = jneg (pos_z p) \<and> pos_x q = pos_x p)"
proof -
  have "(m, idx, reflect ax q) \<in> set scene"
    using mirrored_scene [OF assms(1)] assms(2,3) unfolding mirrored_iff by blast
  moreover have "q = reflect ax (reflect ax q)" by simp
  ultimately show ?thesis
    by (intro exI [of _ "reflect ax q"]) (cases ax; simp)
qed

theorem clones_are_mirror_images_witness:
  "\<exists>scene q p. BuildingScene buildingConfig = Inr scene
     \<and> (BackParapetLine, [], q) \<in> set scene
     \<and> counterpart BackParapetLine = Some (FrontParapetLine, AxisZ)
     \<and> (FrontParapetLine, [], p) \<in> set scene
     \<and> q = reflect AxisZ p
     \<and> pos_z q = Finite (- 7.65) \<and> pos_z p = Finite 7.65"
proof -
  obtain scene where s: "BuildingScene buildingConfig = Inr scene"
    using buildingConfig_scene by blast
  obtain q where q: "(BackParapetLine, [], q) \<in> set (roofStack buildingConfig)"
    and qz: "pos_z q = Finite (- roof_depth (cfg_roof buildingConfig) / 2)"
    by (simp add: roofStack_def Let_def)
  have m: "(BackParapetLine, [], q) \<in> set scene"
    using s q by (auto simp: BuildingScene_eq split: if_splits)
  have c: "counterpart BackParapetLine = Some (FrontParapetLine, AxisZ)" by simp
  from clones_are_mirror_images [OF s m c]
  obtain p where p: "(FrontParapetLine, [], p) \<in> set scene" "q = reflect AxisZ p"
    "pos_z q = jneg (pos_z p)"
    by auto
  have z: "pos_z q = Finite (- 7.65)"
    using qz by (simp add: buildingConfig_def)
  then have "pos_z p = Finite 7.65"
    using p(3) by (cases "pos_z p") simp_all
  with s m c p z show ?thesis by blast
qed

section \<open>Generator: columns\<close>

lemma positionsFinite_append [simp]:
  "positionsFinite (xs @ ys) \<longleftrightarrow> positionsFinite xs \<and> positionsFinite ys"
  by (simp add: positionsFinite_def primitives_def)














end
